theory Spec2Isabelle
  imports Complex_Main "HOL-Library.Multiset" "HOL-Library.AList" "HOL-Library.Log_Nat"
begin

section \<open>Numbers of the metrics engine\<close>

text \<open>
  The metrics of \<^verbatim>\<open>services/data_service.py\<close> are computed by pandas on
  float64 columns. A value is a finite number, an infinity or NaN; every arithmetic
  operation computes the exact result and rounds it to float64 (to nearest, ties to even,
  with gradual underflow, and overflow to an infinity). A division by zero gives an
  infinity or NaN instead of raising, NaN compares false with everything, and NaN and the
  infinities propagate through arithmetic. A stored cell is a finite number
  (\<^typ>\<open>real\<close>): NULL cells and stored infinities are outside the model, and so is the
  sign of zero. Python's \<^verbatim>\<open>int\<close> results (the literals \<^verbatim>\<open>0\<close> and \<^verbatim>\<open>100\<close>) are not told
  apart from the floats of the same value.
\<close>

datatype fl = Fin real | PInf | NInf | NaN

subsection \<open>Rounding to float64\<close>

text \<open>
  \<open>pow2 i\<close> is two to the power \<open>i\<close>, for an integer \<open>i\<close>. The binary exponent of a
  non-zero number \<open>x\<close> is the \<open>e\<close> with \<open>pow2 e \<le> \<bar>x\<bar> < pow2 (e + 1)\<close> (lemma
  \<open>binary_exponent_eq\<close>).
\<close>

definition pow2 :: "int \<Rightarrow> real" where
  "pow2 i = (if 0 \<le> i then 2 ^ nat i else 1 / 2 ^ nat (- i))"

definition binary_exponent :: "real \<Rightarrow> int" where
  "binary_exponent x =
     (let a = \<bar>x\<bar>
      in if 1 \<le> a then bitlen \<lfloor>a\<rfloor> - 1
         else (let k = bitlen \<lfloor>1 / a\<rfloor> - 1
               in if a * 2 ^ nat k = 1 then - k else - k - 1))"

definition round_half_even :: "real \<Rightarrow> int" where
  "round_half_even m =
     (let f = \<lfloor>m\<rfloor>; r = m - of_int f
      in if r < 1 / 2 then f
         else if 1 / 2 < r then f + 1
         else if even f then f else f + 1)"

text \<open>
  The float64 nearest to a real number. Around a number of binary exponent \<open>e\<close> the
  float64 numbers are spaced \<open>pow2 (max e (- 1022) - 52)\<close> apart (53 significant bits;
  below \<open>pow2 (- 1022)\<close> the subnormal numbers are spaced evenly); a rounded magnitude of
  \<open>2 ^ 1024\<close> or more overflows.
\<close>

definition round64 :: "real \<Rightarrow> fl" where
  "round64 x =
     (if x = 0 then Fin 0
      else
        let q = pow2 (max (binary_exponent x) (- 1022) - 52);
            y = of_int (round_half_even (x / q)) * q
        in if 2 ^ 1024 \<le> \<bar>y\<bar> then (if 0 < x then PInf else NInf) else Fin y)"

subsection \<open>Arithmetic and comparison\<close>

fun float_add :: "fl \<Rightarrow> fl \<Rightarrow> fl" where
  "float_add (Fin a) (Fin b) = round64 (a + b)"
| "float_add NaN _ = NaN"
| "float_add _ NaN = NaN"
| "float_add PInf NInf = NaN"
| "float_add NInf PInf = NaN"
| "float_add PInf _ = PInf"
| "float_add _ PInf = PInf"
| "float_add NInf _ = NInf"
| "float_add _ NInf = NInf"

fun float_sub :: "fl \<Rightarrow> fl \<Rightarrow> fl" where
  "float_sub (Fin a) (Fin b) = round64 (a - b)"
| "float_sub NaN _ = NaN"
| "float_sub _ NaN = NaN"
| "float_sub PInf PInf = NaN"
| "float_sub NInf NInf = NaN"
| "float_sub PInf _ = PInf"
| "float_sub NInf _ = NInf"
| "float_sub (Fin a) PInf = NInf"
| "float_sub (Fin a) NInf = PInf"

fun float_mul :: "fl \<Rightarrow> fl \<Rightarrow> fl" where
  "float_mul (Fin a) (Fin b) = round64 (a * b)"
| "float_mul NaN _ = NaN"
| "float_mul _ NaN = NaN"
| "float_mul (Fin a) PInf = (if a = 0 then NaN else if 0 < a then PInf else NInf)"
| "float_mul (Fin a) NInf = (if a = 0 then NaN else if 0 < a then NInf else PInf)"
| "float_mul PInf (Fin b) = (if b = 0 then NaN else if 0 < b then PInf else NInf)"
| "float_mul NInf (Fin b) = (if b = 0 then NaN else if 0 < b then NInf else PInf)"
| "float_mul PInf PInf = PInf"
| "float_mul NInf NInf = PInf"
| "float_mul PInf NInf = NInf"
| "float_mul NInf PInf = NInf"

text \<open>
  Division, as numpy computes it (\<^verbatim>\<open>data['a'] / data['b']\<close> and the quotient of
  two float64 scalars): no exception. A zero divisor counts as positive zero.
\<close>

fun float_div :: "fl \<Rightarrow> fl \<Rightarrow> fl" where
  "float_div (Fin a) (Fin b) =
     (if b \<noteq> 0 then round64 (a / b)
      else if 0 < a then PInf
      else if a < 0 then NInf
      else NaN)"
| "float_div NaN _ = NaN"
| "float_div _ NaN = NaN"
| "float_div (Fin a) _ = Fin 0"
| "float_div PInf (Fin b) = (if 0 \<le> b then PInf else NInf)"
| "float_div NInf (Fin b) = (if 0 \<le> b then NInf else PInf)"
| "float_div _ _ = NaN"

fun float_sqrt :: "fl \<Rightarrow> fl" where
  "float_sqrt (Fin a) = (if 0 \<le> a then round64 (sqrt a) else NaN)"
| "float_sqrt PInf = PInf"
| "float_sqrt _ = NaN"

fun float_le :: "fl \<Rightarrow> fl \<Rightarrow> bool" where
  "float_le (Fin a) (Fin b) = (a \<le> b)"
| "float_le NaN _ = False"
| "float_le _ NaN = False"
| "float_le NInf _ = True"
| "float_le _ PInf = True"
| "float_le _ _ = False"

fun float_lt :: "fl \<Rightarrow> fl \<Rightarrow> bool" where
  "float_lt (Fin a) (Fin b) = (a < b)"
| "float_lt NaN _ = False"
| "float_lt _ NaN = False"
| "float_lt NInf NInf = False"
| "float_lt PInf PInf = False"
| "float_lt NInf _ = True"
| "float_lt _ PInf = True"
| "float_lt _ _ = False"

definition is_nan :: "fl \<Rightarrow> bool" where
  "is_nan x = (x = NaN)"

subsection \<open>Reductions of a series\<close>

text \<open>
  The sum of a float64 array (\<^verbatim>\<open>ndarray.sum\<close>) is numpy's pairwise summation, and
  its order of additions is part of the result. Fewer than eight entries are added from left
  to right, starting from zero. Up to 128 entries are added in eight interleaved running
  sums, which start as the first eight entries; they are combined as a balanced tree, and
  the entries left over are added one by one. A longer array is split near its middle, at a
  multiple of eight, and the sums of the two parts are added.
\<close>

function accumulate_blocks :: "fl list \<Rightarrow> fl list \<Rightarrow> fl list" where
  "accumulate_blocks r xs =
     (if length xs < 8 then r
      else accumulate_blocks (map2 float_add r (take 8 xs)) (drop 8 xs))"
  by pat_completeness auto
termination
  by (relation "measure (\<lambda>(r, xs). length xs)") auto

definition combine8 :: "fl list \<Rightarrow> fl" where
  "combine8 r =
     float_add
       (float_add (float_add (r ! 0) (r ! 1)) (float_add (r ! 2) (r ! 3)))
       (float_add (float_add (r ! 4) (r ! 5)) (float_add (r ! 6) (r ! 7)))"

function pairwise_sum :: "fl list \<Rightarrow> fl" where
  "pairwise_sum a =
     (let n = length a
      in if n < 8 then foldl float_add (Fin 0) a
         else if n \<le> 128 then
           (let m = n - n mod 8;
                r = accumulate_blocks (take 8 a) (drop 8 (take m a))
            in foldl float_add (combine8 r) (drop m a))
         else
           (let n2 = n div 2 - (n div 2) mod 8
            in float_add (pairwise_sum (take n2 a)) (pairwise_sum (drop n2 a))))"
  by pat_completeness auto
termination
proof (relation "measure length")
  show "wf (measure length)" by simp
next
  fix a :: "fl list" and x xa
  assume "x = length a" "\<not> x < 8" "\<not> x \<le> 128" "xa = x div 2 - x div 2 mod 8"
  then show "(take xa a, a) \<in> measure length" by simp
next
  fix a :: "fl list" and x xa
  assume a: "x = length a" "\<not> x < 8" "\<not> x \<le> 128" "xa = x div 2 - x div 2 mod 8"
  then have "64 \<le> x div 2" by linarith
  moreover have "x div 2 mod 8 < 8" by simp
  ultimately have "0 < xa" using a(4) by linarith
  moreover have "0 < length a" using a by (cases a) simp_all
  ultimately have "length a - xa < length a" by (rule diff_less)
  then show "(drop xa a, a) \<in> measure length" by simp
qed

declare accumulate_blocks.simps [simp del] pairwise_sum.simps [simp del]

text \<open>
  \<^verbatim>\<open>Series.sum()\<close> (pandas \<^verbatim>\<open>nansum\<close>): the entries that are NaN count as zero.
\<close>

definition series_sum :: "fl list \<Rightarrow> fl" where
  "series_sum xs = pairwise_sum (map (\<lambda>x. if is_nan x then Fin 0 else x) xs)"

text \<open>
  \<^verbatim>\<open>Series.mean()\<close> of a boolean series (pandas \<^verbatim>\<open>nanmean\<close>): the number of
  \<^verbatim>\<open>True\<close> entries, summed as float64 (a count below \<open>2 ^ 53\<close> is exact), divided
  by the number of entries; NaN for the empty series.
\<close>

definition bool_series_mean :: "bool list \<Rightarrow> fl" where
  "bool_series_mean bs =
     (if bs = [] then NaN
      else float_div (Fin (real (length (filter (\<lambda>b. b) bs)))) (Fin (real (length bs))))"

text \<open>
  \<^verbatim>\<open>Series.std()\<close> (pandas \<^verbatim>\<open>nanstd\<close> over \<^verbatim>\<open>nanvar\<close>, \<^verbatim>\<open>ddof=1\<close>, without the
  optional bottleneck library): \<open>count\<close> is the number of entries that are not NaN and
  \<open>d = count - 1\<close>, both NaN when \<open>count \<le> 1\<close>; the NaN entries are set to zero; the
  mean is the sum over \<open>count\<close>; the squared deviations from the mean, zero at the NaN
  entries, are summed and divided by \<open>d\<close>; the result is the square root.
\<close>

definition series_std :: "fl list \<Rightarrow> fl" where
  "series_std xs =
     (let n = length (filter (\<lambda>x. \<not> is_nan x) xs);
          count = (if n \<le> 1 then NaN else Fin (real n));
          d = (if n \<le> 1 then NaN else Fin (real n - 1));
          values = map (\<lambda>x. if is_nan x then Fin 0 else x) xs;
          avg = float_div (pairwise_sum values) count;
          sqr = map (\<lambda>x. if is_nan x then Fin 0
                          else float_mul (float_sub avg x) (float_sub avg x)) xs
      in float_sqrt (float_div (pairwise_sum sqr) d))"

text \<open>
  \<^verbatim>\<open>Series.rolling(window=w).mean()\<close>: \<^verbatim>\<open>min_periods\<close> defaults to the window, so
  the entry at position \<open>i\<close> is NaN while fewer than \<open>w\<close> observations end there, and the
  mean of the \<open>w\<close> entries ending at \<open>i\<close> afterwards. The means are kept exact
  (pandas keeps a compensated running sum, which is exact on small whole numbers such as
  those of the example below): the trend depends only on which entries are NaN.
\<close>

definition rolling_mean :: "nat \<Rightarrow> real list \<Rightarrow> fl list" where
  "rolling_mean w xs =
     map (\<lambda>i. if i + 1 < w then NaN
              else Fin (sum_list (take w (drop (i + 1 - w) xs)) / real w))
       [0..<length xs]"

section \<open>Errors\<close>

text \<open>
  The exceptions the modelled code can raise; an exception is the \<open>Inl\<close> of a result.
  \<open>Unmodelled\<close> stands for a call into a library that is not modelled, named by the
  function called.
\<close>

datatype error =
    AttributeError string string
  | KeyError string
  | TypeError string
  | IndexError
  | ZeroDivisionError
  | Unmodelled string

text \<open>\<^verbatim>\<open>Series.iloc[i]\<close>: a negative position counts from the end.\<close>

definition iloc :: "'a list \<Rightarrow> int \<Rightarrow> error + 'a" where
  "iloc xs i =
     (if 0 \<le> i \<and> i < int (length xs) then Inr (xs ! nat i)
      else if i < 0 \<and> - i \<le> int (length xs) then Inr (xs ! nat (int (length xs) + i))
      else Inl IndexError)"

section \<open>The metrics engine\<close>

text \<open>A row of \<^verbatim>\<open>get_takt_metrics\<close>: the six selected columns of \<^verbatim>\<open>takt_metrics\<close>.\<close>

record takt_row =
  timestamp :: string
  work_package :: string
  planned_duration :: real
  actual_duration :: real
  variance :: real
  bottleneck_factor :: real

record takt_adherence =
  average_adherence :: fl
  stability_index :: fl

text \<open>The literal \<^verbatim>\<open>1.1\<close> is the float64 nearest to \<open>11/10\<close>.\<close>

definition calculate_takt_adherence :: "takt_row list \<Rightarrow> takt_adherence" where
  "calculate_takt_adherence data =
     (if data = [] then \<lparr>average_adherence = Fin 0, stability_index = Fin 0\<rparr>
      else
        let variance_ratio =
              map (\<lambda>r. float_div (Fin (actual_duration r)) (Fin (planned_duration r))) data
        in \<lparr>average_adherence =
              float_mul
                (bool_series_mean (map (\<lambda>x. float_le x (round64 (11 / 10))) variance_ratio))
                (Fin 100),
            stability_index =
              float_sub (Fin 100) (float_mul (series_std variance_ratio) (Fin 100))\<rparr>)"

record flow_result =
  flow_efficiency :: fl
  waste_percentage :: fl

definition calculate_flow_efficiency :: "takt_row list \<Rightarrow> flow_result" where
  "calculate_flow_efficiency data =
     (if data = [] then \<lparr>flow_efficiency = Fin 0, waste_percentage = Fin 0\<rparr>
      else
        let total_time = series_sum (map (\<lambda>r. Fin (actual_duration r)) data);
            value_added_time =
              series_sum (map (\<lambda>r. Fin (actual_duration r)) (filter (\<lambda>r. variance r \<le> 0) data));
            flow = (if float_lt (Fin 0) total_time
                    then float_mul (float_div value_added_time total_time) (Fin 100)
                    else Fin 0)
        in \<lparr>flow_efficiency = flow, waste_percentage = float_sub (Fin 100) flow\<rparr>)"

record variance_trends =
  trend :: string
  pattern :: "fl list option"

definition analyze_variance_trends :: "takt_row list \<Rightarrow> error + variance_trends" where
  "analyze_variance_trends data =
     (if data = [] then Inr \<lparr>trend = ''No data'', pattern = None\<rparr>
      else
        let variance_series = rolling_mean 5 (map variance data)
        in case iloc variance_series (- 1) of
             Inl e \<Rightarrow> Inl e
           | Inr last_value \<Rightarrow>
               (case iloc variance_series 0 of
                  Inl e \<Rightarrow> Inl e
                | Inr first_value \<Rightarrow>
                    Inr \<lparr>trend = (if float_lt last_value first_value then ''Improving''
                                  else ''Degrading''),
                         pattern = Some variance_series\<rparr>))"

section \<open>Python objects\<close>

text \<open>
  The agents pass dictionaries and lists around by reference, and \<^verbatim>\<open>cross_validate\<close>
  is specified by what it does to a dictionary it was handed. Dictionaries and lists are
  therefore objects in a store: a value is \<^verbatim>\<open>None\<close>, a boolean, an integer, a string
  or a reference to an object; the store is the list of all objects allocated so far, and
  an address is a position in it. A dictionary keeps its items in insertion order.
  A computation takes the store and either raises or returns a value and the new store.
\<close>

type_synonym addr = nat

datatype pyval = PNone | PBool bool | PInt int | PFloat real | PStr string | PRef addr

datatype pyobj = DictObj "(string \<times> pyval) list" | ListObj "pyval list"

type_synonym heap = "pyobj list"

type_synonym 'a py = "heap \<Rightarrow> error + ('a \<times> heap)"

definition return_py :: "'a \<Rightarrow> 'a py" where
  "return_py v h = Inr (v, h)"

definition raise_py :: "error \<Rightarrow> 'a py" where
  "raise_py e h = Inl e"

definition bind_py :: "'a py \<Rightarrow> ('a \<Rightarrow> 'b py) \<Rightarrow> 'b py" where
  "bind_py m f h = (case m h of Inl e \<Rightarrow> Inl e | Inr (v, h') \<Rightarrow> f v h')"

definition new_object :: "pyobj \<Rightarrow> pyval py" where
  "new_object obj h = Inr (PRef (length h), h @ [obj])"

definition heap_get :: "heap \<Rightarrow> pyval \<Rightarrow> pyobj option" where
  "heap_get h v = (case v of PRef a \<Rightarrow> (if a < length h then Some (h ! a) else None) | _ \<Rightarrow> None)"

fun type_name :: "heap \<Rightarrow> pyval \<Rightarrow> string" where
  "type_name h PNone = ''NoneType''"
| "type_name h (PBool b) = ''bool''"
| "type_name h (PInt i) = ''int''"
| "type_name h (PFloat x) = ''float''"
| "type_name h (PStr s) = ''str''"
| "type_name h (PRef a) =
     (case heap_get h (PRef a) of Some (ListObj xs) \<Rightarrow> ''list'' | _ \<Rightarrow> ''dict'')"

text \<open>A dictionary or list display evaluates its entries in order, then allocates.\<close>

fun eval_items :: "(string \<times> pyval py) list \<Rightarrow> (string \<times> pyval) list py" where
  "eval_items [] = return_py []"
| "eval_items ((k, m) # rest) =
     bind_py m (\<lambda>v. bind_py (eval_items rest) (\<lambda>vs. return_py ((k, v) # vs)))"

fun eval_list :: "pyval py list \<Rightarrow> pyval list py" where
  "eval_list [] = return_py []"
| "eval_list (m # rest) =
     bind_py m (\<lambda>v. bind_py (eval_list rest) (\<lambda>vs. return_py (v # vs)))"

definition dict_literal :: "(string \<times> pyval py) list \<Rightarrow> pyval py" where
  "dict_literal items = bind_py (eval_items items) (\<lambda>vs. new_object (DictObj vs))"

definition list_literal :: "pyval py list \<Rightarrow> pyval py" where
  "list_literal ms = bind_py (eval_list ms) (\<lambda>vs. new_object (ListObj vs))"

text \<open>\<^verbatim>\<open>x.copy()\<close>: a new object with the same entries (a shallow copy).\<close>

definition copy_method :: "pyval \<Rightarrow> pyval py" where
  "copy_method v h =
     (case heap_get h v of
        Some obj \<Rightarrow> new_object obj h
      | None \<Rightarrow> Inl (AttributeError (type_name h v) ''copy''))"

text \<open>\<^verbatim>\<open>d[k] = v\<close> with a string key: a dictionary only.\<close>

definition setitem :: "pyval \<Rightarrow> string \<Rightarrow> pyval \<Rightarrow> unit py" where
  "setitem d k v h =
     (case (d, heap_get h d) of
        (PRef a, Some (DictObj items)) \<Rightarrow> Inr ((), h[a := DictObj (AList.update k v items)])
      | _ \<Rightarrow> Inl (TypeError (type_name h d)))"

text \<open>\<^verbatim>\<open>d[k]\<close> with a string key.\<close>

definition getitem :: "pyval \<Rightarrow> string \<Rightarrow> pyval py" where
  "getitem d k h =
     (case heap_get h d of
        Some (DictObj items) \<Rightarrow>
          (case map_of items k of Some v \<Rightarrow> Inr (v, h) | None \<Rightarrow> Inl (KeyError k))
      | _ \<Rightarrow> Inl (TypeError (type_name h d)))"

text \<open>\<^verbatim>\<open>l.append(v)\<close>.\<close>

definition append_method :: "pyval \<Rightarrow> pyval \<Rightarrow> unit py" where
  "append_method l v h =
     (case (l, heap_get h l) of
        (PRef a, Some (ListObj xs)) \<Rightarrow> Inr ((), h[a := ListObj (xs @ [v])])
      | _ \<Rightarrow> Inl (AttributeError (type_name h l) ''append''))"

text \<open>Truth value testing, and the built-in \<^verbatim>\<open>all\<close> on a list.\<close>

fun truthy :: "heap \<Rightarrow> pyval \<Rightarrow> bool" where
  "truthy h PNone = False"
| "truthy h (PBool b) = b"
| "truthy h (PInt i) = (i \<noteq> 0)"
| "truthy h (PFloat x) = (x \<noteq> 0)"
| "truthy h (PStr s) = (s \<noteq> [])"
| "truthy h (PRef a) =
     (case heap_get h (PRef a) of
        Some (DictObj items) \<Rightarrow> items \<noteq> []
      | Some (ListObj xs) \<Rightarrow> xs \<noteq> []
      | None \<Rightarrow> True)"

definition all_builtin :: "pyval \<Rightarrow> bool py" where
  "all_builtin l h =
     (case heap_get h l of
        Some (ListObj xs) \<Rightarrow> Inr (list_all (truthy h) xs, h)
      | _ \<Rightarrow> Inl (TypeError (type_name h l)))"

text \<open>
  \<^verbatim>\<open>len(x)\<close>: the number of entries of a dictionary or a list and the length of a
  string; other values have no length.
\<close>

definition len_builtin :: "pyval \<Rightarrow> nat py" where
  "len_builtin v h =
     (case v of
        PStr s \<Rightarrow> Inr (length s, h)
      | _ \<Rightarrow>
          (case heap_get h v of
             Some (DictObj items) \<Rightarrow> Inr (length items, h)
           | Some (ListObj xs) \<Rightarrow> Inr (length xs, h)
           | None \<Rightarrow> Inl (TypeError (type_name h v))))"

text \<open>Numbers: \<^verbatim>\<open>x > 0\<close> and \<^verbatim>\<open>x / y\<close> on values.\<close>

fun number_of :: "pyval \<Rightarrow> real option" where
  "number_of (PBool b) = Some (if b then 1 else 0)"
| "number_of (PInt i) = Some (real_of_int i)"
| "number_of (PFloat x) = Some x"
| "number_of _ = None"

definition greater_than_zero :: "pyval \<Rightarrow> bool py" where
  "greater_than_zero v h =
     (case number_of v of Some x \<Rightarrow> Inr (0 < x, h) | None \<Rightarrow> Inl (TypeError (type_name h v)))"

definition true_divide :: "pyval \<Rightarrow> pyval \<Rightarrow> pyval py" where
  "true_divide v w h =
     (case (number_of v, number_of w) of
        (Some x, Some y) \<Rightarrow> (if y = 0 then Inl ZeroDivisionError else Inr (PFloat (x / y), h))
      | (None, _) \<Rightarrow> Inl (TypeError (type_name h v))
      | (_, None) \<Rightarrow> Inl (TypeError (type_name h w)))"

section \<open>Agents\<close>

text \<open>
  \<^verbatim>\<open>config.py\<close>: the six agent configurations, in the order of the dictionary. The
  API keys are read from the environment, which is a parameter here
  (\<^verbatim>\<open>os.getenv\<close> gives \<^verbatim>\<open>None\<close> for a variable that is not set).
\<close>

record config =
  name :: string
  expertise :: string
  api_key :: "string option"
  model :: string

definition AGENT_CONFIGS :: "(string \<Rightarrow> string option) \<Rightarrow> (string \<times> config) list" where
  "AGENT_CONFIGS getenv =
     [(''strategy_architect'',
        \<lparr>name = ''Dr. TAKT Strategy Architect'',
         expertise = ''Portfolio & Enterprise-Level TAKT Implementation'',
         api_key = getenv ''OPENAI_API_KEY'', model = ''gpt-4-turbo''\<rparr>),
      (''workflow_specialist'',
        \<lparr>name = ''Dr. Workflow Optimization Specialist'',
         expertise = ''Process Efficiency & Flow Synchronization'',
         api_key = getenv ''ANTHROPIC_API_KEY'', model = ''claude-3''\<rparr>),
      (''scheduling_engineer'',
        \<lparr>name = ''Dr. TAKT Scheduling & Resource Engineer'',
         expertise = ''Advanced Scheduling & Resource Allocation'',
         api_key = getenv ''GROQ_API_KEY'', model = ''mixtral-8x7b''\<rparr>),
      (''data_analyst'',
        \<lparr>name = ''Dr. AI-Driven TAKT Data Analyst'',
         expertise = ''Predictive Analytics & AI Optimization'',
         api_key = getenv ''GOOGLE_API_KEY'', model = ''gemini-pro''\<rparr>),
      (''risk_controller'',
        \<lparr>name = ''Dr. Risk & Variability Controller'',
         expertise = ''TAKT Risk Management & Adaptability'',
         api_key = getenv ''COHERE_API_KEY'', model = ''command''\<rparr>),
      (''implementation_specialist'',
        \<lparr>name = ''Dr. Implementation & Training Specialist'',
         expertise = ''TAKT Adoption & Change Management'',
         api_key = getenv ''EMERGENCEAI_API_KEY'', model = ''emergence-latest''\<rparr>)]"

text \<open>
  An agent is an instance of one of the six subclasses of \<^verbatim>\<open>TaktAgent\<close>, holding the
  four fields \<^verbatim>\<open>__init__\<close> copies from its configuration. The logger is not modelled. A
  method call on an agent dispatches on its class.
\<close>

datatype agent_class =
    StrategyArchitect
  | WorkflowSpecialist
  | SchedulingEngineer
  | DataAnalyst
  | RiskController
  | ImplementationSpecialist

record agent = config +
  cls :: agent_class

definition TaktAgent_init :: "agent_class \<Rightarrow> config \<Rightarrow> agent" where
  "TaktAgent_init c cfg =
     \<lparr>name = name cfg, expertise = expertise cfg, api_key = api_key cfg, model = model cfg,
      cls = c\<rparr>"

fun class_name :: "agent_class \<Rightarrow> string" where
  "class_name StrategyArchitect = ''StrategyArchitect''"
| "class_name WorkflowSpecialist = ''WorkflowSpecialist''"
| "class_name SchedulingEngineer = ''SchedulingEngineer''"
| "class_name DataAnalyst = ''DataAnalyst''"
| "class_name RiskController = ''RiskController''"
| "class_name ImplementationSpecialist = ''ImplementationSpecialist''"

text \<open>
  A call \<^verbatim>\<open>self._m(...)\<close> of a method that neither the agent's class nor
  \<^verbatim>\<open>TaktAgent\<close> defines: the attribute lookup raises. A method whose body is
  \<^verbatim>\<open>pass\<close> returns \<^verbatim>\<open>None\<close>. Both carry the method's name as the source writes it.
\<close>

definition undefined_method :: "agent \<Rightarrow> string \<Rightarrow> pyval py" where
  "undefined_method self m = raise_py (AttributeError (class_name (cls self)) m)"

definition pass_method :: "string \<Rightarrow> pyval py" where
  "pass_method m = return_py PNone"

definition chain_of_thought :: "agent \<Rightarrow> pyval \<Rightarrow> pyval py" where
  "chain_of_thought self context =
     dict_literal
       [(''agent_name'', return_py (PStr (name self))),
        (''expertise'', return_py (PStr (expertise self))),
        (''context'', return_py context),
        (''reasoning_steps'', list_literal []),
        (''conclusions'', list_literal []),
        (''recommendations'', list_literal []),
        (''validation'', dict_literal []),
        (''cross_validation_needed'', return_py (PBool True))]"

text \<open>
  The body shared by the six \<^verbatim>\<open>analyze\<close> methods: the base analysis, the list of the
  six reasoning steps, and the three assignments.
\<close>

definition analyze_body :: "agent \<Rightarrow> pyval \<Rightarrow> pyval py list \<Rightarrow> pyval py" where
  "analyze_body self context steps =
     bind_py (chain_of_thought self context) (\<lambda>analysis.
     bind_py (list_literal steps) (\<lambda>reasoning_steps.
     bind_py (setitem analysis ''reasoning_steps'' reasoning_steps) (\<lambda>_.
     bind_py (pass_method ''_generate_conclusions'') (\<lambda>conclusions.
     bind_py (setitem analysis ''conclusions'' conclusions) (\<lambda>_.
     bind_py (pass_method ''_generate_recommendations'') (\<lambda>recommendations.
     bind_py (setitem analysis ''recommendations'' recommendations) (\<lambda>_.
     return_py analysis)))))))"

text \<open>
  The body shared by the six \<^verbatim>\<open>validate\<close> methods: the list of the criteria, and
  \<^verbatim>\<open>all\<close> of it.
\<close>

definition validate_body :: "pyval py list \<Rightarrow> bool py" where
  "validate_body criteria =
     bind_py (list_literal criteria) (\<lambda>validation_criteria. all_builtin validation_criteria)"

text \<open>The shape every written-out reasoning step returns: a name and three sub-analyses.\<close>

definition reasoning_step :: "string \<Rightarrow> (string \<times> pyval py) list \<Rightarrow> pyval py" where
  "reasoning_step step_name sub_analyses =
     dict_literal
       [(''step'', return_py (PStr step_name)),
        (''analysis'', dict_literal sub_analyses)]"

subsection \<open>\<^verbatim>\<open>agents/strategy_architect.py\<close>\<close>

definition StrategyArchitect_define_objectives :: "agent \<Rightarrow> pyval \<Rightarrow> pyval py" where
  "StrategyArchitect_define_objectives self context =
     reasoning_step ''Define Objectives''
       [(''business_goals'', undefined_method self ''_extract_business_goals''),
        (''takt_objectives'', undefined_method self ''_define_takt_goals''),
        (''success_metrics'', undefined_method self ''_define_metrics'')]"

definition StrategyArchitect_analyze_current_state :: "agent \<Rightarrow> pyval \<Rightarrow> pyval py" where
  "StrategyArchitect_analyze_current_state self context =
     reasoning_step ''Current State Analysis''
       [(''workflow_assessment'', undefined_method self ''_assess_workflows''),
        (''performance_metrics'', undefined_method self ''_analyze_performance''),
        (''strategic_gaps'', undefined_method self ''_identify_gaps'')]"

definition StrategyArchitect_analyze :: "agent \<Rightarrow> pyval \<Rightarrow> pyval py" where
  "StrategyArchitect_analyze self context =
     analyze_body self context
       [StrategyArchitect_define_objectives self context,
        StrategyArchitect_analyze_current_state self context,
        pass_method ''_assess_takt_feasibility'',
        pass_method ''_develop_roadmap'',
        pass_method ''_predict_risks'',
        pass_method ''_align_frameworks'']"

definition StrategyArchitect_validate :: "agent \<Rightarrow> pyval \<Rightarrow> bool py" where
  "StrategyArchitect_validate self analysis =
     validate_body
       [pass_method ''_validate_strategic_alignment'',
        pass_method ''_validate_resource_feasibility'',
        pass_method ''_validate_implementation_timeline'']"

subsection \<open>\<^verbatim>\<open>agents/workflow_specialist.py\<close>\<close>

definition WorkflowSpecialist_identify_bottlenecks :: "agent \<Rightarrow> pyval \<Rightarrow> pyval py" where
  "WorkflowSpecialist_identify_bottlenecks self context =
     reasoning_step ''Bottleneck Analysis''
       [(''process_mapping'', undefined_method self ''_map_processes''),
        (''bottleneck_points'', undefined_method self ''_detect_bottlenecks''),
        (''impact_assessment'', undefined_method self ''_assess_bottleneck_impact'')]"

definition WorkflowSpecialist_analyze_process_variability :: "agent \<Rightarrow> pyval \<Rightarrow> pyval py" where
  "WorkflowSpecialist_analyze_process_variability self context =
     reasoning_step ''Process Variability Analysis''
       [(''cycle_time_analysis'', undefined_method self ''_analyze_cycle_times''),
        (''variance_patterns'', undefined_method self ''_identify_patterns''),
        (''root_causes'', undefined_method self ''_determine_root_causes'')]"

definition WorkflowSpecialist_analyze :: "agent \<Rightarrow> pyval \<Rightarrow> pyval py" where
  "WorkflowSpecialist_analyze self context =
     analyze_body self context
       [WorkflowSpecialist_identify_bottlenecks self context,
        WorkflowSpecialist_analyze_process_variability self context,
        pass_method ''_optimize_workflows'',
        pass_method ''_structure_work_packages'',
        pass_method ''_validate_flow'',
        pass_method ''_simulate_workflows'']"

definition WorkflowSpecialist_validate :: "agent \<Rightarrow> pyval \<Rightarrow> bool py" where
  "WorkflowSpecialist_validate self analysis =
     validate_body
       [pass_method ''_validate_flow_efficiency'',
        pass_method ''_validate_resource_utilization'',
        pass_method ''_validate_cycle_times'']"

subsection \<open>\<^verbatim>\<open>agents/scheduling_engineer.py\<close>\<close>

definition SchedulingEngineer_analyze_project_complexity :: "agent \<Rightarrow> pyval \<Rightarrow> pyval py" where
  "SchedulingEngineer_analyze_project_complexity self context =
     reasoning_step ''Project Complexity Analysis''
       [(''scope_assessment'', undefined_method self ''_assess_scope''),
        (''dependencies'', undefined_method self ''_identify_dependencies''),
        (''constraints'', undefined_method self ''_analyze_constraints'')]"

definition SchedulingEngineer_compute_takt_time :: "agent \<Rightarrow> pyval \<Rightarrow> pyval py" where
  "SchedulingEngineer_compute_takt_time self context =
     bind_py (undefined_method self ''_calculate_available_time'') (\<lambda>available_time.
     bind_py (undefined_method self ''_analyze_demand'') (\<lambda>customer_demand.
     bind_py (greater_than_zero customer_demand) (\<lambda>positive.
     if positive then true_divide available_time customer_demand
     else return_py (PInt 0))))"

definition SchedulingEngineer_calculate_takt_time :: "agent \<Rightarrow> pyval \<Rightarrow> pyval py" where
  "SchedulingEngineer_calculate_takt_time self context =
     reasoning_step ''TAKT Time Calculation''
       [(''customer_demand'', undefined_method self ''_analyze_demand''),
        (''available_time'', undefined_method self ''_calculate_available_time''),
        (''takt_time'', SchedulingEngineer_compute_takt_time self context)]"

definition SchedulingEngineer_determine_resources :: "agent \<Rightarrow> pyval \<Rightarrow> pyval py" where
  "SchedulingEngineer_determine_resources self context =
     reasoning_step ''Resource Determination''
       [(''crew_sizing'', undefined_method self ''_calculate_crew_size''),
        (''equipment_needs'', undefined_method self ''_determine_equipment''),
        (''material_requirements'', undefined_method self ''_calculate_materials'')]"

definition SchedulingEngineer_analyze :: "agent \<Rightarrow> pyval \<Rightarrow> pyval py" where
  "SchedulingEngineer_analyze self context =
     analyze_body self context
       [SchedulingEngineer_analyze_project_complexity self context,
        SchedulingEngineer_calculate_takt_time self context,
        SchedulingEngineer_determine_resources self context,
        pass_method ''_sequence_tasks'',
        pass_method ''_prevent_overruns'',
        pass_method ''_adjust_variability'']"

definition SchedulingEngineer_validate :: "agent \<Rightarrow> pyval \<Rightarrow> bool py" where
  "SchedulingEngineer_validate self analysis =
     validate_body
       [pass_method ''_validate_schedule_feasibility'',
        pass_method ''_validate_resource_availability'',
        pass_method ''_validate_takt_time_calculations'']"

subsection \<open>\<^verbatim>\<open>agents/data_analyst.py\<close>\<close>

definition DataAnalyst_collect_historical_data :: "agent \<Rightarrow> pyval \<Rightarrow> pyval py" where
  "DataAnalyst_collect_historical_data self context =
     reasoning_step ''Historical Data Collection''
       [(''project_data'', undefined_method self ''_gather_project_data''),
        (''performance_metrics'', undefined_method self ''_collect_metrics''),
        (''patterns'', undefined_method self ''_identify_patterns'')]"

text \<open>
  \<^verbatim>\<open>_train_predict_model\<close> asks \<^verbatim>\<open>_prepare_training_data\<close> for its data; that
  method's body is \<^verbatim>\<open>pass\<close>. The test \<^verbatim>\<open>data is None or len(data) == 0\<close> is
  evaluated from left to right. The training written after it reads the features and the
  target from the data and then calls scikit-learn, which is not modelled.
\<close>

definition DataAnalyst_train_predict_model :: "agent \<Rightarrow> pyval \<Rightarrow> pyval py" where
  "DataAnalyst_train_predict_model self context =
     bind_py (pass_method ''_prepare_training_data'') (\<lambda>data.
     bind_py (if data = PNone then return_py True
              else bind_py (len_builtin data) (\<lambda>n. return_py (n = 0))) (\<lambda>insufficient.
     if insufficient
     then dict_literal [(''error'', return_py (PStr ''Insufficient data for model training''))]
     else
       bind_py (getitem data ''features'') (\<lambda>X.
       bind_py (getitem data ''target'') (\<lambda>y.
       raise_py (Unmodelled ''train_test_split'')))))"

definition DataAnalyst_predict_performance :: "agent \<Rightarrow> pyval \<Rightarrow> pyval py" where
  "DataAnalyst_predict_performance self context =
     reasoning_step ''Performance Prediction''
       [(''model_results'', DataAnalyst_train_predict_model self context),
        (''accuracy_metrics'', undefined_method self ''_evaluate_accuracy''),
        (''predictions'', undefined_method self ''_generate_predictions'')]"

definition DataAnalyst_analyze :: "agent \<Rightarrow> pyval \<Rightarrow> pyval py" where
  "DataAnalyst_analyze self context =
     analyze_body self context
       [DataAnalyst_collect_historical_data self context,
        DataAnalyst_predict_performance self context,
        pass_method ''_identify_risks'',
        pass_method ''_optimize_resources'',
        pass_method ''_automate_decisions'',
        pass_method ''_compare_scenarios'']"

definition DataAnalyst_validate :: "agent \<Rightarrow> pyval \<Rightarrow> bool py" where
  "DataAnalyst_validate self analysis =
     validate_body
       [pass_method ''_validate_data_quality'',
        pass_method ''_validate_model_performance'',
        pass_method ''_validate_predictions'']"

subsection \<open>\<^verbatim>\<open>agents/risk_controller.py\<close>\<close>

definition risk_category :: "string \<Rightarrow> string \<Rightarrow> string \<Rightarrow> pyval py" where
  "risk_category category factor1 factor2 =
     dict_literal
       [(''category'', return_py (PStr category)),
        (''factors'', list_literal [return_py (PStr factor1), return_py (PStr factor2)]),
        (''impact_level'', pass_method ''_assess_impact_level'')]"

definition RiskController_categorize_risks :: "agent \<Rightarrow> pyval \<Rightarrow> pyval py" where
  "RiskController_categorize_risks self context =
     list_literal
       [risk_category ''Weather Risks'' ''seasonal weather patterns'' ''extreme weather events'',
        risk_category ''Supply Chain Risks'' ''material delays'' ''supplier reliability'',
        risk_category ''Labor Risks'' ''workforce availability'' ''skill requirements'',
        risk_category ''Technical Risks'' ''equipment reliability'' ''technical complexity'']"

definition RiskController_identify_project_risks :: "agent \<Rightarrow> pyval \<Rightarrow> pyval py" where
  "RiskController_identify_project_risks self context =
     reasoning_step ''Project Risk Identification''
       [(''risk_categories'', RiskController_categorize_risks self context),
        (''risk_factors'', undefined_method self ''_identify_risk_factors''),
        (''impact_assessment'', undefined_method self ''_assess_risk_impact'')]"

definition RiskController_analyze_historical_variability :: "agent \<Rightarrow> pyval \<Rightarrow> pyval py" where
  "RiskController_analyze_historical_variability self context =
     reasoning_step ''Historical Variability Analysis''
       [(''past_disruptions'', undefined_method self ''_analyze_disruptions''),
        (''variability_patterns'', undefined_method self ''_identify_patterns''),
        (''lessons_learned'', undefined_method self ''_extract_lessons'')]"

definition RiskController_analyze :: "agent \<Rightarrow> pyval \<Rightarrow> pyval py" where
  "RiskController_analyze self context =
     analyze_body self context
       [RiskController_identify_project_risks self context,
        RiskController_analyze_historical_variability self context,
        pass_method ''_develop_contingency_plans'',
        pass_method ''_implement_risk_mitigation'',
        pass_method ''_monitor_risk_indicators'',
        pass_method ''_adjust_takt_plans'']"

definition RiskController_validate :: "agent \<Rightarrow> pyval \<Rightarrow> bool py" where
  "RiskController_validate self analysis =
     validate_body
       [pass_method ''_validate_risk_assessment'',
        pass_method ''_validate_mitigation_strategies'',
        pass_method ''_validate_contingency_plans'']"

subsection \<open>\<^verbatim>\<open>agents/implementation_specialist.py\<close>\<close>

definition ImplementationSpecialist_assess_organizational_readiness ::
  "agent \<Rightarrow> pyval \<Rightarrow> pyval py" where
  "ImplementationSpecialist_assess_organizational_readiness self context =
     reasoning_step ''Organizational Readiness Assessment''
       [(''current_capabilities'', undefined_method self ''_assess_capabilities''),
        (''training_needs'', undefined_method self ''_identify_training_needs''),
        (''cultural_factors'', undefined_method self ''_analyze_culture'')]"

definition training_module ::
  "string \<Rightarrow> string \<Rightarrow> string \<Rightarrow> string \<Rightarrow> string \<Rightarrow> string \<Rightarrow> pyval py" where
  "training_module module_name target_audience duration content1 content2 content3 =
     dict_literal
       [(''module'', return_py (PStr module_name)),
        (''target_audience'', return_py (PStr target_audience)),
        (''duration'', return_py (PStr duration)),
        (''content'',
           list_literal
             [return_py (PStr content1), return_py (PStr content2), return_py (PStr content3)])]"

definition ImplementationSpecialist_design_modules :: "agent \<Rightarrow> pyval \<Rightarrow> pyval py" where
  "ImplementationSpecialist_design_modules self context =
     list_literal
       [training_module ''TAKT Fundamentals'' ''All Staff'' ''4 hours''
          ''Introduction to TAKT Planning'' ''Basic Principles and Concepts''
          ''Benefits and Applications'',
        training_module ''Advanced TAKT Planning'' ''Project Managers'' ''8 hours''
          ''TAKT Time Calculation'' ''Resource Optimization'' ''Schedule Integration'',
        training_module ''TAKT Implementation'' ''Field Supervisors'' ''6 hours''
          ''Daily Planning and Control'' ''Team Coordination'' ''Problem Solving'']"

definition ImplementationSpecialist_develop_training_modules :: "agent \<Rightarrow> pyval \<Rightarrow> pyval py" where
  "ImplementationSpecialist_develop_training_modules self context =
     reasoning_step ''Training Module Development''
       [(''module_structure'', ImplementationSpecialist_design_modules self context),
        (''learning_objectives'', undefined_method self ''_define_objectives''),
        (''delivery_methods'', undefined_method self ''_determine_methods'')]"

definition ImplementationSpecialist_analyze :: "agent \<Rightarrow> pyval \<Rightarrow> pyval py" where
  "ImplementationSpecialist_analyze self context =
     analyze_body self context
       [ImplementationSpecialist_assess_organizational_readiness self context,
        ImplementationSpecialist_develop_training_modules self context,
        pass_method ''_design_change_management'',
        pass_method ''_customize_stakeholder_training'',
        pass_method ''_implement_feedback_system'',
        pass_method ''_measure_adoption_success'']"

definition ImplementationSpecialist_validate :: "agent \<Rightarrow> pyval \<Rightarrow> bool py" where
  "ImplementationSpecialist_validate self analysis =
     validate_body
       [pass_method ''_validate_training_effectiveness'',
        pass_method ''_validate_change_management'',
        pass_method ''_validate_adoption_metrics'']"

subsection \<open>Method dispatch and \<^verbatim>\<open>agents/base_agent.py\<close>\<close>

definition analyze :: "agent \<Rightarrow> pyval \<Rightarrow> pyval py" where
  "analyze self context =
     (case cls self of
        StrategyArchitect \<Rightarrow> StrategyArchitect_analyze self context
      | WorkflowSpecialist \<Rightarrow> WorkflowSpecialist_analyze self context
      | SchedulingEngineer \<Rightarrow> SchedulingEngineer_analyze self context
      | DataAnalyst \<Rightarrow> DataAnalyst_analyze self context
      | RiskController \<Rightarrow> RiskController_analyze self context
      | ImplementationSpecialist \<Rightarrow> ImplementationSpecialist_analyze self context)"

definition validate :: "agent \<Rightarrow> pyval \<Rightarrow> bool py" where
  "validate self analysis =
     (case cls self of
        StrategyArchitect \<Rightarrow> StrategyArchitect_validate self analysis
      | WorkflowSpecialist \<Rightarrow> WorkflowSpecialist_validate self analysis
      | SchedulingEngineer \<Rightarrow> SchedulingEngineer_validate self analysis
      | DataAnalyst \<Rightarrow> DataAnalyst_validate self analysis
      | RiskController \<Rightarrow> RiskController_validate self analysis
      | ImplementationSpecialist \<Rightarrow> ImplementationSpecialist_validate self analysis)"

text \<open>The loop of \<^verbatim>\<open>cross_validate\<close> over \<^verbatim>\<open>other_agents\<close>.\<close>

fun cross_validate_loop :: "agent \<Rightarrow> agent list \<Rightarrow> pyval \<Rightarrow> pyval \<Rightarrow> unit py" where
  "cross_validate_loop self [] analysis validated_analysis = return_py ()"
| "cross_validate_loop self (agent # rest) analysis validated_analysis =
     bind_py
       (if name agent \<noteq> name self then
          bind_py (validate agent analysis) (\<lambda>validation.
          bind_py (getitem validated_analysis ''cross_validation_results'') (\<lambda>results.
          bind_py (dict_literal
                     [(''validator'', return_py (PStr (name agent))),
                      (''validated'', return_py (PBool validation))]) (\<lambda>entry.
          append_method results entry)))
        else return_py ())
       (\<lambda>_. cross_validate_loop self rest analysis validated_analysis)"

definition cross_validate :: "agent \<Rightarrow> agent list \<Rightarrow> pyval \<Rightarrow> pyval py" where
  "cross_validate self other_agents analysis =
     bind_py (copy_method analysis) (\<lambda>validated_analysis.
     bind_py (list_literal []) (\<lambda>results.
     bind_py (setitem validated_analysis ''cross_validation_results'' results) (\<lambda>_.
     bind_py (cross_validate_loop self other_agents analysis validated_analysis) (\<lambda>_.
     return_py validated_analysis))))"

section \<open>The orchestrator\<close>

text \<open>
  \<^verbatim>\<open>orchestrator.py\<close>. The roster \<^verbatim>\<open>self.agents\<close> is a parameter of the methods. The
  dictionaries the orchestrator builds for itself (\<^verbatim>\<open>analyses\<close>,
  \<^verbatim>\<open>validated_analyses\<close> and the results) are never shared, and are modelled as
  association lists in insertion order and as records; the analyses they hold are
  references into the store.
\<close>

type_synonym roster = "(string \<times> agent) list"

definition initialize_agents :: "(string \<Rightarrow> string option) \<Rightarrow> error + roster" where
  "initialize_agents getenv =
     (case map_of (AGENT_CONFIGS getenv) ''strategy_architect'' of
        None \<Rightarrow> Inl (KeyError ''strategy_architect'')
      | Some cfg \<Rightarrow> Inr [(''strategy_architect'', TaktAgent_init StrategyArchitect cfg)])"

fun analyze_loop :: "roster \<Rightarrow> pyval \<Rightarrow> (string \<times> pyval) list \<Rightarrow> (string \<times> pyval) list py" where
  "analyze_loop [] project_context analyses = return_py analyses"
| "analyze_loop ((agent_name, agent) # rest) project_context analyses =
     bind_py (analyze agent project_context) (\<lambda>analysis.
     analyze_loop rest project_context (AList.update agent_name analysis analyses))"

fun cross_validate_analyses_loop ::
  "roster \<Rightarrow> (string \<times> pyval) list \<Rightarrow> (string \<times> pyval) list \<Rightarrow> (string \<times> pyval) list py" where
  "cross_validate_analyses_loop agents [] validated_analyses = return_py validated_analyses"
| "cross_validate_analyses_loop agents ((agent_name, analysis) # rest) validated_analyses =
     (let other_agents = map snd (filter (\<lambda>(n, a). n \<noteq> agent_name) agents)
      in case map_of agents agent_name of
           None \<Rightarrow> raise_py (KeyError agent_name)
         | Some self \<Rightarrow>
             bind_py (cross_validate self other_agents analysis) (\<lambda>validated.
             cross_validate_analyses_loop agents rest
               (AList.update agent_name validated validated_analyses)))"

definition cross_validate_analyses :: "roster \<Rightarrow> (string \<times> pyval) list \<Rightarrow> (string \<times> pyval) list py" where
  "cross_validate_analyses agents analyses = cross_validate_analyses_loop agents analyses []"

definition extract_strategic_recommendations :: "(string \<times> pyval) list \<Rightarrow> pyval" where
  "extract_strategic_recommendations analyses = PNone"

definition create_implementation_plan :: "(string \<times> pyval) list \<Rightarrow> pyval" where
  "create_implementation_plan analyses = PNone"

definition compile_risk_mitigation :: "(string \<times> pyval) list \<Rightarrow> pyval" where
  "compile_risk_mitigation analyses = PNone"

definition define_success_metrics :: "(string \<times> pyval) list \<Rightarrow> pyval" where
  "define_success_metrics analyses = PNone"

record recommendations =
  strategic_recommendations :: pyval
  implementation_plan :: pyval
  risk_mitigation :: pyval
  success_metrics :: pyval

definition synthesize_recommendations :: "(string \<times> pyval) list \<Rightarrow> recommendations" where
  "synthesize_recommendations validated_analyses =
     \<lparr>strategic_recommendations = extract_strategic_recommendations validated_analyses,
      implementation_plan = create_implementation_plan validated_analyses,
      risk_mitigation = compile_risk_mitigation validated_analyses,
      success_metrics = define_success_metrics validated_analyses\<rparr>"

record project_analysis =
  individual_analyses :: "(string \<times> pyval) list"
  synthesized_recommendations :: recommendations
  project_context :: pyval

definition analyze_project :: "roster \<Rightarrow> pyval \<Rightarrow> project_analysis py" where
  "analyze_project agents context =
     bind_py (analyze_loop agents context []) (\<lambda>analyses.
     bind_py (cross_validate_analyses agents analyses) (\<lambda>validated_analyses.
     return_py
       \<lparr>individual_analyses = validated_analyses,
        synthesized_recommendations = synthesize_recommendations validated_analyses,
        project_context = context\<rparr>))"

section \<open>Reference definitions\<close>

text \<open>
  What the statements below are written in: the quantities the specification names, the
  readers that follow references through a store, and the example inputs.
\<close>

subsection \<open>Metrics\<close>

text \<open>
  The sum of \<^verbatim>\<open>actual_duration\<close> over all rows, and over the rows whose variance is not
  positive: as exact numbers, and as the float64 sums of the two series.
\<close>

definition total_actual :: "takt_row list \<Rightarrow> real" where
  "total_actual data = (\<Sum>r\<leftarrow>data. actual_duration r)"

definition value_added :: "takt_row list \<Rightarrow> real" where
  "value_added data = (\<Sum>r\<leftarrow>data. if variance r \<le> 0 then actual_duration r else 0)"

definition float_total :: "takt_row list \<Rightarrow> fl" where
  "float_total data = series_sum (map (\<lambda>r. Fin (actual_duration r)) data)"

definition float_value_added :: "takt_row list \<Rightarrow> fl" where
  "float_value_added data =
     series_sum (map (\<lambda>r. Fin (actual_duration r)) (filter (\<lambda>r. variance r \<le> 0) data))"

text \<open>
  Durations that are whole numbers whose magnitudes add up to at most \<open>2 ^ 53\<close>: every
  float64 sum of some of them, in any order, is exact.
\<close>

definition whole_durations :: "takt_row list \<Rightarrow> bool" where
  "whole_durations data =
     (list_all (\<lambda>r. of_int \<lfloor>actual_duration r\<rfloor> = actual_duration r) data \<and>
      (\<Sum>r\<leftarrow>data. \<bar>actual_duration r\<bar>) \<le> 2 ^ 53)"

text \<open>
  A float64 sum of a collection of numbers, in some order of additions: zero for none, the
  number itself for one, and the rounded sum of the sums of two parts.
\<close>

inductive tree_sum :: "fl multiset \<Rightarrow> fl \<Rightarrow> bool" where
  zero: "tree_sum {#} (Fin 0)"
| leaf: "tree_sum {#x#} x"
| node: "tree_sum A x \<Longrightarrow> tree_sum B y \<Longrightarrow> tree_sum (A + B) (float_add x y)"

text \<open>The number a finite value holds (zero for the others), and whether a value is finite.\<close>

fun val :: "fl \<Rightarrow> real" where
  "val (Fin a) = a"
| "val _ = 0"

fun is_finite :: "fl \<Rightarrow> bool" where
  "is_finite (Fin a) = True"
| "is_finite _ = False"

text \<open>
  The ratios of a table, the adherence flag of a row, and the percentage of flagged rows,
  in float64.
\<close>

definition ratios :: "takt_row list \<Rightarrow> fl list" where
  "ratios data = map (\<lambda>r. float_div (Fin (actual_duration r)) (Fin (planned_duration r))) data"

definition adherence_flag :: "takt_row \<Rightarrow> bool" where
  "adherence_flag r =
     float_le (float_div (Fin (actual_duration r)) (Fin (planned_duration r))) (round64 (11 / 10))"



text \<open>Example rows: the four numeric columns are given, the two text columns are fixed.\<close>

definition example_row :: "real \<Rightarrow> real \<Rightarrow> real \<Rightarrow> real \<Rightarrow> takt_row" where
  "example_row planned actual var factor =
     \<lparr>timestamp = ''2024-01-01 00:00:00'', work_package = ''Foundation'',
      planned_duration = planned, actual_duration = actual, variance = var,
      bottleneck_factor = factor\<rparr>"

text \<open>Rows planned at 20 hours whose variances are the given numbers.\<close>

definition variance_rows :: "real list \<Rightarrow> takt_row list" where
  "variance_rows vs = map (\<lambda>v. example_row 20 (20 + v) v ((20 + v) / 20)) vs"

text \<open>
  A row as the sample-data generator of \<^verbatim>\<open>init_sample_data\<close> fills it: the variance is
  \<^verbatim>\<open>actual - planned\<close> and the bottleneck factor \<^verbatim>\<open>actual / planned\<close>. The float64 a
  decimal literal denotes, as the content of a cell.
\<close>

definition duration_row :: "real \<Rightarrow> real \<Rightarrow> takt_row" where
  "duration_row planned actual = example_row planned actual (actual - planned) (actual / planned)"


subsection \<open>Reading a store\<close>

definition read_dict :: "heap \<Rightarrow> pyval \<Rightarrow> (string \<times> pyval) list option" where
  "read_dict h v = (case heap_get h v of Some (DictObj items) \<Rightarrow> Some items | _ \<Rightarrow> None)"

definition read_list :: "heap \<Rightarrow> pyval \<Rightarrow> pyval list option" where
  "read_list h v = (case heap_get h v of Some (ListObj xs) \<Rightarrow> Some xs | _ \<Rightarrow> None)"

text \<open>The validator and the verdict of one cross-validation entry.\<close>

definition read_entry :: "heap \<Rightarrow> pyval \<Rightarrow> (pyval \<times> pyval) option" where
  "read_entry h v =
     (case read_dict h v of
        None \<Rightarrow> None
      | Some items \<Rightarrow>
          (case (map_of items ''validator'', map_of items ''validated'') of
             (Some validator, Some validated) \<Rightarrow> Some (validator, validated)
           | _ \<Rightarrow> None))"

text \<open>
  The \<^verbatim>\<open>cross_validation_results\<close> of an analysis, read through its references: the
  entries in order, each as its validator and its verdict.
\<close>

definition cross_validation_results :: "heap \<Rightarrow> pyval \<Rightarrow> (pyval \<times> pyval) list option" where
  "cross_validation_results h v =
     (case read_dict h v of
        None \<Rightarrow> None
      | Some items \<Rightarrow>
          (case map_of items ''cross_validation_results'' of
             None \<Rightarrow> None
           | Some l \<Rightarrow>
               (case read_list h l of
                  None \<Rightarrow> None
                | Some refs \<Rightarrow> those (map (read_entry h) refs))))"

subsection \<open>Peers and rosters\<close>

text \<open>The agents of a list that \<^verbatim>\<open>cross_validate\<close> asks: those named differently from \<open>self\<close>.\<close>

definition peers_of :: "agent \<Rightarrow> agent list \<Rightarrow> agent list" where
  "peers_of self other_agents = filter (\<lambda>agent. name agent \<noteq> name self) other_agents"

text \<open>The other agents of a roster: every agent registered under another key, in roster order.\<close>

definition peers :: "roster \<Rightarrow> string \<Rightarrow> agent list" where
  "peers agents agent_name = map snd (filter (\<lambda>(n, a). n \<noteq> agent_name) agents)"

text \<open>The entries a list of validators leaves: each validator's name with the verdict \<^verbatim>\<open>False\<close>.\<close>

definition results_of :: "agent list \<Rightarrow> (pyval \<times> pyval) list" where
  "results_of ps = map (\<lambda>p. (PStr (name p), PBool False)) ps"

text \<open>
  The objects one call of \<^verbatim>\<open>cross_validate\<close> allocates after the copy and the result
  list: per validator the list of its three criteria and its entry. The references to the
  entries, from the address of the first of these objects.
\<close>

definition entry_of :: "agent \<Rightarrow> pyobj" where
  "entry_of agent = DictObj [(''validator'', PStr (name agent)), (''validated'', PBool False)]"

fun entry_refs :: "nat \<Rightarrow> agent list \<Rightarrow> pyval list" where
  "entry_refs b [] = []"
| "entry_refs b (p # ps) = PRef (b + 1) # entry_refs (b + 2) ps"

fun loop_objects :: "agent list \<Rightarrow> pyobj list" where
  "loop_objects [] = []"
| "loop_objects (p # ps) = ListObj [PNone, PNone, PNone] # entry_of p # loop_objects ps"

text \<open>The first method each class's \<^verbatim>\<open>analyze\<close> calls that is defined nowhere.\<close>

definition first_undefined_method :: "agent_class \<Rightarrow> string" where
  "first_undefined_method c =
     (case c of
        StrategyArchitect \<Rightarrow> ''_extract_business_goals''
      | WorkflowSpecialist \<Rightarrow> ''_map_processes''
      | SchedulingEngineer \<Rightarrow> ''_assess_scope''
      | DataAnalyst \<Rightarrow> ''_gather_project_data''
      | RiskController \<Rightarrow> ''_identify_risk_factors''
      | ImplementationSpecialist \<Rightarrow> ''_assess_capabilities'')"

text \<open>
  An environment without API keys, and the agent the orchestrator builds in it. The roster
  the specification describes: one agent of each class under its key of
  \<^verbatim>\<open>AGENT_CONFIGS\<close>; the orchestrator does not build it.
\<close>

definition no_keys :: "string \<Rightarrow> string option" where
  "no_keys variable = None"

definition strategy_architect :: agent where
  "strategy_architect =
     TaktAgent_init StrategyArchitect
       \<lparr>name = ''Dr. TAKT Strategy Architect'',
        expertise = ''Portfolio & Enterprise-Level TAKT Implementation'',
        api_key = None, model = ''gpt-4-turbo''\<rparr>"

definition six_agent_roster :: "(string \<Rightarrow> string option) \<Rightarrow> roster" where
  "six_agent_roster getenv =
     map (\<lambda>((key, cfg), c). (key, TaktAgent_init c cfg))
       (zip (AGENT_CONFIGS getenv)
          [StrategyArchitect, WorkflowSpecialist, SchedulingEngineer, DataAnalyst,
           RiskController, ImplementationSpecialist])"

text \<open>Six one-item analyses in a store, one under each key of the six-agent roster.\<close>

definition six_analyses :: "(string \<times> pyval) list" where
  "six_analyses =
     [(''strategy_architect'', PRef 0), (''workflow_specialist'', PRef 1),
      (''scheduling_engineer'', PRef 2), (''data_analyst'', PRef 3),
      (''risk_controller'', PRef 4), (''implementation_specialist'', PRef 5)]"

definition six_dicts :: heap where
  "six_dicts = map (\<lambda>k. DictObj [(''agent_name'', PStr k)])
     [''Dr. TAKT Strategy Architect'', ''Dr. Workflow Optimization Specialist'',
      ''Dr. TAKT Scheduling & Resource Engineer'', ''Dr. AI-Driven TAKT Data Analyst'',
      ''Dr. Risk & Variability Controller'', ''Dr. Implementation & Training Specialist'']"

section \<open>Rounding\<close>

text \<open>
  The binary exponent is the one the definition of \<open>round64\<close> needs, so a rounding can
  be computed from the exponent of its argument; and a whole number of magnitude at most
  \<open>2 ^ 53\<close> is a float64.
\<close>

lemma pow2_pos: "0 < pow2 i"
  by (simp add: pow2_def)

lemma pow2_powr: "pow2 i = 2 powr (real_of_int i)"
  by (cases "0 \<le> i") (simp_all add: pow2_def powr_realpow [symmetric] powr_minus divide_inverse)

lemma pow2_add: "pow2 (i + j) = pow2 i * pow2 j"
  by (simp add: pow2_powr powr_add)

lemma pow2_mono: "i \<le> j \<Longrightarrow> pow2 i \<le> pow2 j"
  by (simp add: pow2_powr)

lemma pow2_strict_mono: "i < j \<Longrightarrow> pow2 i < pow2 j"
  by (simp add: pow2_powr)

lemma pow2_less_cancel: "pow2 i < pow2 j \<Longrightarrow> i < j"
  by (simp add: pow2_powr)

lemma bitlen_eqI:
  assumes "0 \<le> e" and "2 ^ nat e \<le> n" and "n < 2 ^ nat (e + 1)"
  shows "bitlen n = e + 1"
proof (rule antisym)
  show "bitlen n \<le> e + 1"
    using assms by (simp add: bitlen_le_iff_power)
  have "nat (e + 1) - 1 = nat e" using assms(1) by simp
  then show "e + 1 \<le> bitlen n"
    using assms by (simp add: bitlen_ge_iff_power)
qed

lemma binary_exponent_eq:
  assumes lo: "pow2 e \<le> \<bar>x\<bar>" and hi: "\<bar>x\<bar> < pow2 (e + 1)"
  shows "binary_exponent x = e"
proof (cases "1 \<le> \<bar>x\<bar>")
  case True
  have "pow2 0 < pow2 (e + 1)" using True hi by (simp add: pow2_def)
  then have e0: "0 \<le> e" using pow2_less_cancel [of 0 "e + 1"] by simp
  have "real_of_int (2 ^ nat e) \<le> \<bar>x\<bar>" using lo e0 by (simp add: pow2_def)
  then have l: "2 ^ nat e \<le> \<lfloor>\<bar>x\<bar>\<rfloor>" by (simp only: le_floor_iff)
  have "\<bar>x\<bar> < real_of_int (2 ^ nat (e + 1))" using hi e0 by (simp add: pow2_def)
  then have h: "\<lfloor>\<bar>x\<bar>\<rfloor> < 2 ^ nat (e + 1)" by (simp only: floor_less_iff)
  from bitlen_eqI [OF e0 l h] True show ?thesis
    by (simp add: binary_exponent_def)
next
  case False
  then have a1: "\<bar>x\<bar> < 1" by simp
  have apos: "0 < \<bar>x\<bar>" using lo pow2_pos [of e] by linarith
  have "pow2 e < pow2 0" using a1 lo by (simp add: pow2_def)
  then have e0: "e < 0" by (rule pow2_less_cancel)
  define j where "j = - e - 1"
  have j0: "0 \<le> j" using e0 by (simp add: j_def)
  have lo': "1 / 2 ^ nat (j + 1) \<le> \<bar>x\<bar>" using lo e0 by (simp add: pow2_def j_def)
  have hi': "\<bar>x\<bar> * 2 ^ nat j < 1"
  proof (cases "j = 0")
    case True
    then show ?thesis using a1 by simp
  next
    case False
    then have "e + 1 < 0" using j0 by (simp add: j_def)
    then have "pow2 (e + 1) = 1 / 2 ^ nat j" by (simp add: pow2_def j_def)
    with hi have "\<bar>x\<bar> < 1 / 2 ^ nat j" by simp
    then show ?thesis by (simp add: field_simps)
  qed
  let ?r = "1 / \<bar>x\<bar>"
  have r_hi: "?r \<le> 2 ^ nat (j + 1)" using lo' apos by (simp add: field_simps)
  have r_lo: "2 ^ nat j < ?r" using hi' apos by (simp add: field_simps)
  show ?thesis
  proof (cases "\<bar>x\<bar> * 2 ^ nat (j + 1) = 1")
    case True
    then have "?r = real_of_int (2 ^ nat (j + 1))" using apos by (simp add: field_simps)
    then have fl: "\<lfloor>?r\<rfloor> = 2 ^ nat (j + 1)" by (metis floor_of_int)
    have "bitlen (2 ^ nat (j + 1)) = (j + 1) + 1"
      by (rule bitlen_eqI) (use j0 in simp_all)
    with fl True False j0 show ?thesis
      by (simp add: binary_exponent_def Let_def j_def)
  next
    case ne: False
    then have "?r \<noteq> 2 ^ nat (j + 1)" using apos by (auto simp: field_simps)
    with r_hi have "?r < real_of_int (2 ^ nat (j + 1))" by simp
    then have h: "\<lfloor>?r\<rfloor> < 2 ^ nat (j + 1)" by (simp only: floor_less_iff)
    have "real_of_int (2 ^ nat j) \<le> ?r" using r_lo by simp
    then have l: "2 ^ nat j \<le> \<lfloor>?r\<rfloor>" by (simp only: le_floor_iff)
    have b: "bitlen \<lfloor>?r\<rfloor> = j + 1" by (rule bitlen_eqI [OF j0 l h])
    have "\<bar>x\<bar> * 2 ^ nat j \<noteq> 1" using hi' by simp
    with b False show ?thesis
      by (simp add: binary_exponent_def Let_def j_def)
  qed
qed

lemma round_half_even_int [simp]: "round_half_even (of_int z) = z"
  by (simp add: round_half_even_def)

lemma round64_eval:
  assumes "x \<noteq> 0" and "pow2 e \<le> \<bar>x\<bar>" and "\<bar>x\<bar> < pow2 (e + 1)"
  shows "round64 x =
     (let q = pow2 (max e (- 1022) - 52);
          y = of_int (round_half_even (x / q)) * q
      in if 2 ^ 1024 \<le> \<bar>y\<bar> then (if 0 < x then PInf else NInf) else Fin y)"
  using assms(1) by (simp add: round64_def binary_exponent_eq [OF assms(2,3)])

lemma round64_int:
  assumes "\<bar>k\<bar> \<le> 2 ^ 53"
  shows "round64 (of_int k) = Fin (of_int k)"
proof (cases "k = 0")
  case True
  then show ?thesis by (simp add: round64_def)
next
  case False
  define e where "e = bitlen \<bar>k\<bar> - 1"
  have kpos: "0 < \<bar>k\<bar>" using False by simp
  from bitlen_bounds [OF kpos] have b: "2 ^ nat e \<le> \<bar>k\<bar>" "\<bar>k\<bar> < 2 ^ nat (e + 1)"
    by (simp_all add: e_def)
  have "1 \<le> bitlen \<bar>k\<bar>" using kpos by (simp add: bitlen_ge_iff_power)
  then have e0: "0 \<le> e" by (simp add: e_def)
  have "bitlen \<bar>k\<bar> \<le> 54" using assms by (simp add: bitlen_le_iff_power)
  then have e53: "e \<le> 53" by (simp add: e_def)
  have ex: "binary_exponent (of_int k) = e"
  proof (rule binary_exponent_eq)
    show "pow2 e \<le> \<bar>real_of_int k\<bar>"
      using b(1) e0 by (simp add: pow2_def) (metis of_int_abs of_int_le_iff of_int_numeral of_int_power)
    show "\<bar>real_of_int k\<bar> < pow2 (e + 1)"
      using b(2) e0 by (simp add: pow2_def) (metis of_int_abs of_int_less_iff of_int_numeral of_int_power)
  qed
  have "\<exists>z. real_of_int k / pow2 (e - 52) = of_int z \<and> of_int z * pow2 (e - 52) = real_of_int k"
  proof (cases "e \<le> 52")
    case True
    then have q: "pow2 (e - 52) = 1 / 2 ^ nat (52 - e)"
      by (cases "e = 52") (simp_all add: pow2_def)
    show ?thesis
      by (rule exI [of _ "k * 2 ^ nat (52 - e)"]) (simp add: q)
  next
    case False
    with e53 have e: "e = 53" by simp
    then have "2 ^ 53 \<le> \<bar>k\<bar>" using b(1) by simp
    with assms have "\<bar>k\<bar> = 2 ^ 53" by simp
    then have "k = 2 ^ 53 \<or> k = - (2 ^ 53)" by (simp add: abs_if split: if_splits)
    then show ?thesis
    proof
      assume "k = 2 ^ 53"
      then show ?thesis by (intro exI [of _ "2 ^ 52"]) (simp add: e pow2_def)
    next
      assume "k = - (2 ^ 53)"
      then show ?thesis by (intro exI [of _ "- (2 ^ 52)"]) (simp add: e pow2_def)
    qed
  qed
  then obtain z where z: "real_of_int k / pow2 (e - 52) = of_int z"
      "of_int z * pow2 (e - 52) = real_of_int k" by blast
  have "\<bar>real_of_int k\<bar> \<le> 2 ^ 53" using assms
    by (metis of_int_abs of_int_le_iff of_int_numeral of_int_power)
  also have "\<dots> < (2::real) ^ 1024" by simp
  finally have small: "\<not> 2 ^ 1024 \<le> \<bar>real_of_int k\<bar>" by simp
  have m: "max e (- 1022) = e" using e0 by simp
  show ?thesis
    using False small by (simp add: round64_def ex m z Let_def)
qed

section \<open>Float64 sums\<close>

text \<open>
  The pairwise sum of an array is one of the float64 sums of its entries. What holds for
  every order of additions holds for it: the sum of whole numbers within \<open>2 ^ 53\<close> is
  exact.
\<close>

lemma tree_sum_foldl:
  "tree_sum A s \<Longrightarrow> tree_sum (A + mset xs) (foldl float_add s xs)"
proof (induction xs arbitrary: A s)
  case Nil
  then show ?case by simp
next
  case (Cons x xs)
  have "tree_sum (A + {#x#}) (float_add s x)"
    by (rule tree_sum.node [OF Cons.prems tree_sum.leaf])
  from Cons.IH [OF this] show ?case by (simp add: ac_simps)
qed

lemma sum_list_lanes:
  "length As = length cs \<Longrightarrow>
   sum_list (map2 (+) As (map (\<lambda>x. {#x#}) cs)) = sum_list As + mset cs"
  by (induction As cs rule: list_induct2) (simp_all add: ac_simps)

lemma tree_sum_lanes:
  assumes "list_all2 tree_sum As r" and "length cs = length r"
  shows "list_all2 tree_sum (map2 (+) As (map (\<lambda>x. {#x#}) cs)) (map2 float_add r cs)"
proof (rule list_all2_all_nthI)
  have l: "length As = length r" using assms(1) by (rule list_all2_lengthD)
  show "length (map2 (+) As (map (\<lambda>x. {#x#}) cs)) = length (map2 float_add r cs)"
    using l assms(2) by simp
  fix n
  assume "n < length (map2 (+) As (map (\<lambda>x. {#x#}) cs))"
  then have n: "n < length r" "n < length cs" "n < length As" using l assms(2) by simp_all
  have "tree_sum (As ! n) (r ! n)" using assms(1) n(1) by (rule list_all2_nthD2)
  then have "tree_sum (As ! n + {#cs ! n#}) (float_add (r ! n) (cs ! n))"
    by (rule tree_sum.node [OF _ tree_sum.leaf])
  then show "tree_sum (map2 (+) As (map (\<lambda>x. {#x#}) cs) ! n) (map2 float_add r cs ! n)"
    using n by simp
qed

lemma tree_sum_accumulate_blocks:
  "length r = 8 \<Longrightarrow> 8 dvd length xs \<Longrightarrow> list_all2 tree_sum As r \<Longrightarrow>
   \<exists>Bs. list_all2 tree_sum Bs (accumulate_blocks r xs) \<and> sum_list Bs = sum_list As + mset xs"
proof (induction r xs arbitrary: As rule: accumulate_blocks.induct)
  case (1 r xs)
  show ?case
  proof (cases "length xs < 8")
    case True
    with 1(3) have "xs = []" by (auto elim!: dvdE)
    then show ?thesis using 1(4) by (subst accumulate_blocks.simps) auto
  next
    case False
    let ?cs = "take 8 xs"
    let ?As = "map2 (+) As (map (\<lambda>x. {#x#}) ?cs)"
    have lc: "length ?cs = length r" using False 1(2) by simp
    have la: "length As = length ?cs"
      using list_all2_lengthD [OF 1(4)] lc by simp
    have a: "list_all2 tree_sum ?As (map2 float_add r ?cs)"
      using 1(4) lc by (rule tree_sum_lanes)
    have l: "length (map2 float_add r ?cs) = 8" using lc 1(2) by simp
    have d: "8 dvd length (drop 8 xs)" using 1(3) False by (simp add: dvd_diff_nat)
    obtain Bs where b: "list_all2 tree_sum Bs (accumulate_blocks (map2 float_add r ?cs) (drop 8 xs))"
      and s: "sum_list Bs = sum_list ?As + mset (drop 8 xs)"
      using 1(1) [OF False l d a] by blast
    have "mset ?cs + mset (drop 8 xs) = mset xs"
      by (metis append_take_drop_id mset_append)
    then have "sum_list Bs = sum_list As + mset xs"
      using s sum_list_lanes [OF la] by (simp add: ac_simps)
    moreover have "accumulate_blocks r xs = accumulate_blocks (map2 float_add r ?cs) (drop 8 xs)"
      using False by (subst accumulate_blocks.simps) simp
    ultimately show ?thesis using b by auto
  qed
qed

lemma tree_sum_combine8:
  assumes "list_all2 tree_sum As r" and "length r = 8"
  shows "tree_sum (sum_list As) (combine8 r)"
proof -
  have l: "length As = 8" using list_all2_lengthD [OF assms(1)] assms(2) by simp
  have t: "\<And>i. i < 8 \<Longrightarrow> tree_sum (As ! i) (r ! i)"
    using assms by (simp add: list_all2_nthD2)
  have "As = map ((!) As) [0..<8]" using map_nth [of As] l by simp
  also have "[0..<8] = [0, 1, 2, 3, 4, 5, 6, 7::nat]" by (simp add: upt_rec)
  finally have "sum_list As =
    ((As ! 0 + As ! 1) + (As ! 2 + As ! 3)) + ((As ! 4 + As ! 5) + (As ! 6 + As ! 7))"
    by (metis (no_types, lifting) list.simps(8,9) sum_list.Cons sum_list.Nil add.assoc add.right_neutral)
  moreover have "tree_sum
    (((As ! 0 + As ! 1) + (As ! 2 + As ! 3)) + ((As ! 4 + As ! 5) + (As ! 6 + As ! 7)))
    (combine8 r)"
    unfolding combine8_def by (intro tree_sum.node t) simp_all
  ultimately show ?thesis by simp
qed

lemma sum_list_singletons: "sum_list (map (\<lambda>x. {#x#}) xs) = mset xs"
  by (induction xs) simp_all

lemma length_accumulate_blocks:
  "length r = 8 \<Longrightarrow> 8 dvd length xs \<Longrightarrow> length (accumulate_blocks r xs) = 8"
proof (induction r xs rule: accumulate_blocks.induct)
  case (1 r xs)
  show ?case
  proof (cases "length xs < 8")
    case True
    then show ?thesis using 1(2) by (subst accumulate_blocks.simps) simp
  next
    case False
    have l: "length (map2 float_add r (take 8 xs)) = 8" using False 1(2) by simp
    have d: "8 dvd length (drop 8 xs)" using 1(3) False by (simp add: dvd_diff_nat)
    show ?thesis using False 1(1) [OF False l d] by (subst accumulate_blocks.simps) simp
  qed
qed

lemma tree_sum_pairwise_sum: "tree_sum (mset a) (pairwise_sum a)"
proof (induction a rule: pairwise_sum.induct)
  case (1 a)
  show ?case
  proof (cases "length a < 8")
    case True
    have "tree_sum ({#} + mset a) (foldl float_add (Fin 0) a)"
      by (rule tree_sum_foldl [OF tree_sum.zero])
    then show ?thesis using True by (subst pairwise_sum.simps) simp
  next
    case False
    note long = False
    show ?thesis
    proof (cases "length a \<le> 128")
      case True
      define m where "m = length a - length a mod 8"
      define r where "r = accumulate_blocks (take 8 a) (drop 8 (take m a))"
      have m8: "8 \<le> m" "m \<le> length a" "8 dvd m"
        using long unfolding m_def by (simp_all add: dvd_minus_mod) presburger
      have i: "list_all2 tree_sum (map (\<lambda>x. {#x#}) (take 8 a)) (take 8 a)"
        by (simp add: list_all2_conv_all_nth tree_sum.leaf)
      have l8: "length (take 8 a) = 8" using long by simp
      have d: "8 dvd length (drop 8 (take m a))" using m8 by (simp add: dvd_diff_nat)
      obtain Bs where b: "list_all2 tree_sum Bs r"
        and s: "sum_list Bs = sum_list (map (\<lambda>x. {#x#}) (take 8 a)) + mset (drop 8 (take m a))"
        using tree_sum_accumulate_blocks [OF l8 d i] unfolding r_def by blast
      have "take 8 a = take 8 (take m a)" using m8 by (simp add: min_def)
      then have "mset (take 8 a) + mset (drop 8 (take m a)) = mset (take m a)"
        by (metis append_take_drop_id mset_append)
      then have s': "sum_list Bs = mset (take m a)" using s by (simp add: sum_list_singletons)
      have "length r = 8" unfolding r_def using l8 d by (rule length_accumulate_blocks)
      with b have "tree_sum (sum_list Bs) (combine8 r)" by (rule tree_sum_combine8)
      then have "tree_sum (mset (take m a) + mset (drop m a)) (foldl float_add (combine8 r) (drop m a))"
        unfolding s' by (rule tree_sum_foldl)
      moreover have "mset (take m a) + mset (drop m a) = mset a"
        by (metis append_take_drop_id mset_append)
      moreover have "pairwise_sum a = foldl float_add (combine8 r) (drop m a)"
        using long True unfolding r_def m_def by (subst pairwise_sum.simps) (simp add: Let_def)
      ultimately show ?thesis by simp
    next
      case False
      define n2 where "n2 = length a div 2 - length a div 2 mod 8"
      have "tree_sum (mset (take n2 a)) (pairwise_sum (take n2 a))"
        using 1(1) [OF refl long False] unfolding n2_def by simp
      moreover have "tree_sum (mset (drop n2 a)) (pairwise_sum (drop n2 a))"
        using 1(2) [OF refl long False] unfolding n2_def by simp
      ultimately have "tree_sum (mset (take n2 a) + mset (drop n2 a))
        (float_add (pairwise_sum (take n2 a)) (pairwise_sum (drop n2 a)))"
        by (rule tree_sum.node)
      moreover have "mset (take n2 a) + mset (drop n2 a) = mset a"
        by (metis append_take_drop_id mset_append)
      moreover have "pairwise_sum a = float_add (pairwise_sum (take n2 a)) (pairwise_sum (drop n2 a))"
        using long False unfolding n2_def by (subst pairwise_sum.simps) (simp add: Let_def)
      ultimately show ?thesis by simp
    qed
  qed
qed

lemma sum_mset_Ints: "(\<And>y. y \<in># A \<Longrightarrow> f y \<in> \<int>) \<Longrightarrow> (\<Sum>y\<in>#A. f y) \<in> (\<int> :: real set)"
  by (induction A) simp_all

lemma sum_mset_abs: "\<bar>\<Sum>y\<in>#A. f y\<bar> \<le> (\<Sum>y\<in>#A. \<bar>f y :: real\<bar>)"
proof (induction A)
  case empty
  show ?case by simp
next
  case (add x A)
  then show ?case by simp
qed

lemma sum_mset_abs_nonneg: "0 \<le> (\<Sum>y\<in>#A. \<bar>f y :: real\<bar>)"
  by (induction A) simp_all

lemma round64_Ints:
  assumes "x \<in> \<int>" and "\<bar>x\<bar> \<le> 2 ^ 53"
  shows "round64 x = Fin x"
proof -
  from assms(1) obtain k where k: "x = of_int k" by (rule Ints_cases)
  have "real_of_int \<bar>k\<bar> \<le> real_of_int (2 ^ 53)" using assms(2) k by simp
  then have "\<bar>k\<bar> \<le> 2 ^ 53" by (simp only: of_int_le_iff)
  then show ?thesis unfolding k by (rule round64_int)
qed

lemma tree_sum_exact:
  "tree_sum A x \<Longrightarrow> (\<And>y. y \<in># A \<Longrightarrow> is_finite y \<and> val y \<in> \<int>) \<Longrightarrow>
   (\<Sum>y\<in>#A. \<bar>val y\<bar>) \<le> 2 ^ 53 \<Longrightarrow> x = Fin (\<Sum>y\<in>#A. val y)"
proof (induction rule: tree_sum.induct)
  case zero
  show ?case by simp
next
  case (leaf x)
  then have "is_finite x" by simp
  then show ?case by (cases x) simp_all
next
  case (node A x B y)
  have nn: "0 \<le> (\<Sum>y\<in>#A. \<bar>val y\<bar>)" "0 \<le> (\<Sum>y\<in>#B. \<bar>val y\<bar>)"
    by (simp_all add: sum_mset_abs_nonneg)
  have b: "(\<Sum>y\<in>#A. \<bar>val y\<bar>) + (\<Sum>y\<in>#B. \<bar>val y\<bar>) \<le> 2 ^ 53" using node.prems(2) by simp
  have x: "x = Fin (\<Sum>y\<in>#A. val y)" using node.prems(1) b nn by (intro node.IH(1)) auto
  have y: "y = Fin (\<Sum>y\<in>#B. val y)" using node.prems(1) b nn by (intro node.IH(2)) auto
  have "(\<Sum>y\<in>#A + B. val y) \<in> \<int>" using node.prems(1) by (intro sum_mset_Ints) blast
  moreover have "\<bar>\<Sum>y\<in>#A + B. val y\<bar> \<le> 2 ^ 53"
    using sum_mset_abs [of val "A + B"] node.prems(2) by linarith
  ultimately have "round64 (\<Sum>y\<in>#A + B. val y) = Fin (\<Sum>y\<in>#A + B. val y)"
    by (rule round64_Ints)
  then show ?case unfolding x y by simp
qed

section \<open>Values\<close>

text \<open>The roundings the examples below go through, each computed from its binary exponent.\<close>

lemma round64_whole: "x \<in> \<int> \<Longrightarrow> \<bar>x\<bar> \<le> 2 ^ 53 \<Longrightarrow> round64 x = Fin x"
  by (rule round64_Ints)

lemma round64_0 [simp]: "round64 0 = Fin 0"
  by (simp add: round64_def)

lemma pairwise_sum_short: "length a < 8 \<Longrightarrow> pairwise_sum a = foldl float_add (Fin 0) a"
  by (subst pairwise_sum.simps) simp

lemma round64_values:
  shows "round64 (1 / 2) = Fin (1 / 2)"
    and "round64 (3 / 4) = Fin (3 / 4)"
    and "round64 (5 / 4) = Fin (5 / 4)"
    and "round64 (9 / 4) = Fin (9 / 4)"
    and "round64 (1 / 4) = Fin (1 / 4)"
    and "round64 (- (1 / 4)) = Fin (- (1 / 4))"
    and "round64 (1 / 16) = Fin (1 / 16)"
    and "round64 (1 / 8) = Fin (1 / 8)"
    and "round64 (3 / 2) = Fin (3 / 2)"
    and "round64 (- (1 / 2)) = Fin (- (1 / 2))"
    and "round64 (11 / 10) = Fin (2476979795053773 / 2251799813685248)"
    and "round64 (4 / 3) = Fin (6004799503160661 / 4503599627370496)"
    and "round64 (3 / 10) = Fin (5404319552844595 / 18014398509481984)"
    and "round64 (1 / 5) = Fin (3602879701896397 / 18014398509481984)"
    and "round64 (1 / 10) = Fin (3602879701896397 / 36028797018963968)"
    and "round64 (5404319552844595 / 18014398509481984) = Fin (5404319552844595 / 18014398509481984)"
    and "round64 (3602879701896397 / 18014398509481984) = Fin (3602879701896397 / 18014398509481984)"
    and "round64 (3602879701896397 / 36028797018963968) = Fin (3602879701896397 / 36028797018963968)"
    and "round64 (21617278211378381 / 36028797018963968) = Fin (5404319552844595 / 9007199254740992)"
    and "round64 (10808639105689191 / 36028797018963968) = Fin (1351079888211149 / 4503599627370496)"
    and "round64 (2702159776422298 / 5404319552844595) = Fin (4503599627370497 / 9007199254740992)"
    and "round64 (112589990684262425 / 2251799813685248) = Fin (3518437208883201 / 70368744177664)"
    and "round64 (3518437208883199 / 70368744177664) = Fin (3518437208883199 / 70368744177664)"
    and "round64 (10808639105689191 / 18014398509481984) = Fin (1351079888211149 / 2251799813685248)"
    and "round64 (2476979795053773 / 2251799813685248) = Fin (2476979795053773 / 2251799813685248)"
  subgoal by (subst round64_eval [where e = "- 1"]) (simp_all add: pow2_def round_half_even_def Let_def)
  subgoal by (subst round64_eval [where e = "- 1"]) (simp_all add: pow2_def round_half_even_def Let_def)
  subgoal by (subst round64_eval [where e = 0]) (simp_all add: pow2_def round_half_even_def Let_def)
  subgoal by (subst round64_eval [where e = 1]) (simp_all add: pow2_def round_half_even_def Let_def)
  subgoal by (subst round64_eval [where e = "- 2"]) (simp_all add: pow2_def round_half_even_def Let_def)
  subgoal by (subst round64_eval [where e = "- 2"]) (simp_all add: pow2_def round_half_even_def Let_def)
  subgoal by (subst round64_eval [where e = "- 4"]) (simp_all add: pow2_def round_half_even_def Let_def)
  subgoal by (subst round64_eval [where e = "- 3"]) (simp_all add: pow2_def round_half_even_def Let_def)
  subgoal by (subst round64_eval [where e = 0]) (simp_all add: pow2_def round_half_even_def Let_def)
  subgoal by (subst round64_eval [where e = "- 1"]) (simp_all add: pow2_def round_half_even_def Let_def)
  subgoal by (subst round64_eval [where e = 0]) (simp_all add: pow2_def round_half_even_def Let_def)
  subgoal by (subst round64_eval [where e = 0]) (simp_all add: pow2_def round_half_even_def Let_def)
  subgoal by (subst round64_eval [where e = "- 2"]) (simp_all add: pow2_def round_half_even_def Let_def)
  subgoal by (subst round64_eval [where e = "- 3"]) (simp_all add: pow2_def round_half_even_def Let_def)
  subgoal by (subst round64_eval [where e = "- 4"]) (simp_all add: pow2_def round_half_even_def Let_def)
  subgoal by (subst round64_eval [where e = "- 2"]) (simp_all add: pow2_def round_half_even_def Let_def)
  subgoal by (subst round64_eval [where e = "- 3"]) (simp_all add: pow2_def round_half_even_def Let_def)
  subgoal by (subst round64_eval [where e = "- 4"]) (simp_all add: pow2_def round_half_even_def Let_def)
  subgoal by (subst round64_eval [where e = "- 1"]) (simp_all add: pow2_def round_half_even_def Let_def)
  subgoal by (subst round64_eval [where e = "- 2"]) (simp_all add: pow2_def round_half_even_def Let_def)
  subgoal by (subst round64_eval [where e = "- 1"]) (simp_all add: pow2_def round_half_even_def Let_def)
  subgoal by (subst round64_eval [where e = 5]) (simp_all add: pow2_def round_half_even_def Let_def)
  subgoal by (subst round64_eval [where e = 5]) (simp_all add: pow2_def round_half_even_def Let_def)
  subgoal by (subst round64_eval [where e = "- 1"]) (simp_all add: pow2_def round_half_even_def Let_def)
  subgoal by (subst round64_eval [where e = 0]) (simp_all add: pow2_def round_half_even_def Let_def)
  done

text \<open>The largest binade: \<open>2 ^ 1023\<close> is a float64, twice as much overflows.\<close>

lemma round64_largest_binade:
  shows "round64 (2 ^ 1023) = Fin (2 ^ 1023)"
    and "round64 (2 ^ 1024) = PInf"
  subgoal by (subst round64_eval [where e = 1023]) (simp_all add: pow2_def round_half_even_def Let_def)
  subgoal by (subst round64_eval [where e = 1024]) (simp_all add: pow2_def round_half_even_def Let_def)
  done

section \<open>Sums of whole numbers\<close>

text \<open>
  On numbers that are not NaN the series sum is the pairwise sum, and on whole durations
  within \<open>2 ^ 53\<close> it is the exact sum.
\<close>

lemma series_sum_cells: "series_sum (map (\<lambda>r. Fin (f r)) data) = pairwise_sum (map (\<lambda>r. Fin (f r)) data)"
  by (simp add: series_sum_def is_nan_def comp_def)

lemma sum_list_filter_indicator:
  "sum_list (map f (filter P xs)) = (\<Sum>x\<leftarrow>xs. if P x then f x else (0::real))"
  by (induction xs) simp_all

lemma sum_list_abs_filter:
  "(\<Sum>x\<leftarrow>filter P xs. \<bar>f x :: real\<bar>) \<le> (\<Sum>x\<leftarrow>xs. \<bar>f x\<bar>)"
  by (induction xs) (simp_all add: add_increasing)

lemma whole_durations_filter:
  assumes "whole_durations data"
  shows "whole_durations (filter P data)"
proof -
  have "(\<Sum>r\<leftarrow>filter P data. \<bar>actual_duration r\<bar>) \<le> (\<Sum>r\<leftarrow>data. \<bar>actual_duration r\<bar>)"
    by (rule sum_list_abs_filter)
  with assms show ?thesis
    by (auto simp: whole_durations_def list_all_iff)
qed

lemma series_sum_whole:
  assumes "whole_durations data"
  shows "series_sum (map (\<lambda>r. Fin (actual_duration r)) data) = Fin (\<Sum>r\<leftarrow>data. actual_duration r)"
proof -
  let ?cells = "map (\<lambda>r. Fin (actual_duration r)) data"
  have t: "tree_sum (mset ?cells) (pairwise_sum ?cells)"
    by (rule tree_sum_pairwise_sum)
  have i: "\<And>y. y \<in># mset ?cells \<Longrightarrow> is_finite y \<and> val y \<in> \<int>"
  proof -
    fix y
    assume "y \<in># mset ?cells"
    then obtain r where r: "r \<in> set data" "y = Fin (actual_duration r)" by auto
    with assms have "of_int \<lfloor>actual_duration r\<rfloor> = actual_duration r"
      by (simp add: whole_durations_def list_all_iff)
    then have "actual_duration r \<in> \<int>" by (metis Ints_of_int)
    with r show "is_finite y \<and> val y \<in> \<int>" by simp
  qed
  have a: "(\<Sum>y\<in>#mset ?cells. \<bar>val y\<bar>) = (\<Sum>r\<leftarrow>data. \<bar>actual_duration r\<bar>)"
    by (induction data) simp_all
  have s: "(\<Sum>y\<in>#mset ?cells. val y) = (\<Sum>r\<leftarrow>data. actual_duration r)"
    by (induction data) simp_all
  have "(\<Sum>y\<in>#mset ?cells. \<bar>val y\<bar>) \<le> 2 ^ 53"
    using assms unfolding a by (simp add: whole_durations_def)
  with t i have "pairwise_sum ?cells = Fin (\<Sum>y\<in>#mset ?cells. val y)"
    by (rule tree_sum_exact)
  then show ?thesis by (simp only: series_sum_cells s)
qed

lemma float_total_whole:
  "whole_durations data \<Longrightarrow> float_total data = Fin (total_actual data)"
  unfolding float_total_def total_actual_def by (rule series_sum_whole)

lemma float_value_added_whole:
  assumes "whole_durations data"
  shows "float_value_added data = Fin (value_added data)"
proof -
  have "whole_durations (filter (\<lambda>r. variance r \<le> 0) data)"
    using assms by (rule whole_durations_filter)
  then show ?thesis
    unfolding float_value_added_def value_added_def
    by (simp only: series_sum_whole sum_list_filter_indicator)
qed

section \<open>Flow efficiency\<close>

lemma round64_100: "round64 100 = Fin 100"
  by (rule round64_whole) simp_all

text \<open>
  C7, as amended. For the empty input both \<^verbatim>\<open>flow_efficiency\<close> and
  \<^verbatim>\<open>waste_percentage\<close> are 0. For every non-empty sequence of duration records, in
  float64 arithmetic: \<^verbatim>\<open>flow_efficiency\<close> is the sum of \<^verbatim>\<open>actual_duration\<close> over
  the records with \<^verbatim>\<open>variance <= 0\<close>, divided by the sum over all records, times 100,
  when that total is positive, and 0 when the total is not positive (no division by
  zero, and then the waste is 100); \<^verbatim>\<open>waste_percentage\<close> is 100 minus
  \<^verbatim>\<open>flow_efficiency\<close>. The two sums are exact when the durations are whole numbers
  whose magnitudes add up to at most \<open>2 ^ 53\<close>.
\<close>

theorem flow_efficiency_guarded:
  "calculate_flow_efficiency [] = \<lparr>flow_efficiency = Fin 0, waste_percentage = Fin 0\<rparr> \<and>
   (data \<noteq> [] \<longrightarrow>
      flow_efficiency (calculate_flow_efficiency data) =
        (if float_lt (Fin 0) (float_total data)
         then float_mul (float_div (float_value_added data) (float_total data)) (Fin 100)
         else Fin 0) \<and>
      waste_percentage (calculate_flow_efficiency data) =
        float_sub (Fin 100) (flow_efficiency (calculate_flow_efficiency data)) \<and>
      (\<not> float_lt (Fin 0) (float_total data) \<longrightarrow>
         calculate_flow_efficiency data = \<lparr>flow_efficiency = Fin 0, waste_percentage = Fin 100\<rparr>) \<and>
      (whole_durations data \<longrightarrow>
         float_total data = Fin (total_actual data) \<and>
         float_value_added data = Fin (value_added data)))"
proof (intro conjI impI)
  show "calculate_flow_efficiency [] = \<lparr>flow_efficiency = Fin 0, waste_percentage = Fin 0\<rparr>"
    by (simp add: calculate_flow_efficiency_def)
next
  assume ne: "data \<noteq> []"
  show "flow_efficiency (calculate_flow_efficiency data) =
        (if float_lt (Fin 0) (float_total data)
         then float_mul (float_div (float_value_added data) (float_total data)) (Fin 100)
         else Fin 0)"
    using ne
    by (simp add: calculate_flow_efficiency_def Let_def float_total_def float_value_added_def)
  show "waste_percentage (calculate_flow_efficiency data) =
        float_sub (Fin 100) (flow_efficiency (calculate_flow_efficiency data))"
    using ne by (simp add: calculate_flow_efficiency_def Let_def)
next
  assume "data \<noteq> []" and "\<not> float_lt (Fin 0) (float_total data)"
  then show "calculate_flow_efficiency data = \<lparr>flow_efficiency = Fin 0, waste_percentage = Fin 100\<rparr>"
    by (simp add: calculate_flow_efficiency_def Let_def float_total_def round64_100)
next
  assume "whole_durations data"
  then show "float_total data = Fin (total_actual data)"
    by (rule float_total_whole)
next
  assume "whole_durations data"
  then show "float_value_added data = Fin (value_added data)"
    by (rule float_value_added_whole)
qed

text \<open>
  Two records, one early (15 of 20 hours) and one late (45 of 40 hours): 15 of the 60
  hours spent add value, a flow efficiency of 25 and a waste of 75. One record of no
  duration: the total is zero, nothing is divided, the flow efficiency is 0 and the
  waste 100.
\<close>

theorem flow_efficiency_guarded_witness:
  "calculate_flow_efficiency [duration_row 20 15, duration_row 40 45] =
     \<lparr>flow_efficiency = Fin 25, waste_percentage = Fin 75\<rparr> \<and>
   calculate_flow_efficiency [duration_row 5 0] =
     \<lparr>flow_efficiency = Fin 0, waste_percentage = Fin 100\<rparr>"
proof
  let ?data = "[duration_row 20 15, duration_row 40 45]"
  have w: "whole_durations ?data"
    by (simp add: whole_durations_def duration_row_def example_row_def)
  have ne: "?data \<noteq> []" by simp
  have t: "total_actual ?data = 60" and v: "value_added ?data = 15"
    by (simp_all add: total_actual_def value_added_def duration_row_def example_row_def)
  from flow_efficiency_guarded [of ?data] ne w
  have "flow_efficiency (calculate_flow_efficiency ?data) =
        (if float_lt (Fin 0) (Fin 60) then float_mul (float_div (Fin 15) (Fin 60)) (Fin 100) else Fin 0)"
    and "waste_percentage (calculate_flow_efficiency ?data) =
        float_sub (Fin 100) (flow_efficiency (calculate_flow_efficiency ?data))"
    by (simp_all add: t v)
  then have "flow_efficiency (calculate_flow_efficiency ?data) = Fin 25"
    and "waste_percentage (calculate_flow_efficiency ?data) = Fin 75"
    by (simp_all add: round64_values round64_whole)
  then show "calculate_flow_efficiency ?data = \<lparr>flow_efficiency = Fin 25, waste_percentage = Fin 75\<rparr>"
    by (cases "calculate_flow_efficiency ?data") simp
next
  let ?idle = "[duration_row 5 0]"
  have w: "whole_durations ?idle"
    by (simp add: whole_durations_def duration_row_def example_row_def)
  have ne: "?idle \<noteq> []" by simp
  have t: "total_actual ?idle = 0"
    by (simp add: total_actual_def duration_row_def example_row_def)
  from flow_efficiency_guarded [of ?idle] ne w have "float_total ?idle = Fin 0"
    by (simp add: t)
  with flow_efficiency_guarded [of ?idle] ne
  show "calculate_flow_efficiency ?idle = \<lparr>flow_efficiency = Fin 0, waste_percentage = Fin 100\<rparr>"
    by simp
qed

text \<open>
  C7 as stated fails: for the empty input the waste is 0, not 100 minus the flow
  efficiency; and a negative total is not divided by: for one record of duration -1
  with a negative variance the claimed quotient is 100, the result 0.
\<close>

theorem flow_efficiency_counterexample:
  "waste_percentage (calculate_flow_efficiency [])
     \<noteq> float_sub (Fin 100) (flow_efficiency (calculate_flow_efficiency [])) \<and>
   float_total [example_row 1 (- 1) (- 2) (- 1)] = Fin (- 1) \<and>
   float_value_added [example_row 1 (- 1) (- 2) (- 1)] = Fin (- 1) \<and>
   float_mul (float_div (Fin (- 1)) (Fin (- 1))) (Fin 100) = Fin 100 \<and>
   flow_efficiency (calculate_flow_efficiency [example_row 1 (- 1) (- 2) (- 1)]) = Fin 0"
  by (simp add: calculate_flow_efficiency_def float_total_def float_value_added_def series_sum_def
      is_nan_def pairwise_sum_short example_row_def round64_whole)

text \<open>
  A total that overflows is infinite, and the quotient of a finite value-adding sum by it
  is zero: of two records of \<open>2 ^ 1023\<close> hours, the first late and the second on time,
  the flow efficiency is 0 and the waste 100.
\<close>

lemma flow_efficiency_overflow:
  "calculate_flow_efficiency [duration_row 1 (2 ^ 1023), duration_row (2 ^ 1023) (2 ^ 1023)]
     = \<lparr>flow_efficiency = Fin 0, waste_percentage = Fin 100\<rparr>"
proof -
  have "(2::real) ^ 1023 + 2 ^ 1023 = 2 ^ 1024" by simp
  moreover have "\<not> (2::real) ^ 1023 \<le> 1" by simp
  ultimately show ?thesis
    by (simp add: calculate_flow_efficiency_def series_sum_def is_nan_def pairwise_sum_short
      duration_row_def example_row_def round64_largest_binade round64_100 Let_def
      del: power_numeral)
qed

section \<open>Flow efficiency and the order of the records\<close>






section \<open>TAKT adherence\<close>


text \<open>
  The threshold is the float64 that \<^verbatim>\<open>1.1\<close> denotes, which is above \<open>11/10\<close>: a
  record whose ratio is that float64 adheres, although its ratio exceeds \<open>11/10\<close>.
\<close>

lemma adherence_flag_float_threshold:
  "adherence_flag (duration_row (2 ^ 52) 4953959590107546) \<and>
   \<not> (4953959590107546 / 2 ^ 52 \<le> (11 / 10 :: real))"
  by (simp add: adherence_flag_def duration_row_def example_row_def round64_values)

text \<open>A ratio that overflows is infinite.\<close>

lemma ratio_overflow:
  "ratios [duration_row (1 / 2) (2 ^ 1023)] = [PInf]"
proof -
  have "(2::real) ^ 1023 / (1 / 2) = 2 ^ 1024" by simp
  then show ?thesis
    by (simp add: ratios_def duration_row_def example_row_def round64_largest_binade
        del: power_numeral)
qed





text \<open>
  A record planned at zero hours with a non-zero actual duration has an infinite ratio.
  Every float64 sum over an infinity is that infinity or NaN, so the mean of the ratios is,
  the squared deviation of the infinite ratio is NaN, and whatever else the sequence holds,
  the stability index is NaN.
\<close>

lemma tree_sum_NaN: "tree_sum A x \<Longrightarrow> NaN \<in># A \<Longrightarrow> x = NaN"
proof (induction rule: tree_sum.induct)
  case zero
  then show ?case by simp
next
  case (leaf x)
  then show ?case by simp
next
  case (node A x B y)
  then have "x = NaN \<or> y = NaN" by auto
  then show ?case by (cases x; cases y) auto
qed

lemma tree_sum_PInf: "tree_sum A x \<Longrightarrow> PInf \<in># A \<Longrightarrow> x = PInf \<or> x = NaN"
proof (induction rule: tree_sum.induct)
  case zero
  then show ?case by simp
next
  case (leaf x)
  then show ?case by simp
next
  case (node A x B y)
  then have "x = PInf \<or> x = NaN \<or> y = PInf \<or> y = NaN" by auto
  then show ?case by (cases x; cases y) auto
qed

lemma tree_sum_NInf: "tree_sum A x \<Longrightarrow> NInf \<in># A \<Longrightarrow> x = NInf \<or> x = NaN"
proof (induction rule: tree_sum.induct)
  case zero
  then show ?case by simp
next
  case (leaf x)
  then show ?case by simp
next
  case (node A x B y)
  then have "x = NInf \<or> x = NaN \<or> y = NInf \<or> y = NaN" by auto
  then show ?case by (cases x; cases y) auto
qed

lemma pairwise_sum_NaN: "NaN \<in> set a \<Longrightarrow> pairwise_sum a = NaN"
  using tree_sum_NaN [OF tree_sum_pairwise_sum [of a]] by simp

lemma float_div_NaN: "float_div x NaN = NaN"
  by (cases x) simp_all

lemma series_std_inf:
  assumes "PInf \<in> set xs \<or> NInf \<in> set xs"
  shows "series_std xs = NaN"
proof -
  define n where "n = length (filter (\<lambda>x. \<not> is_nan x) xs)"
  define vs where "vs = map (\<lambda>x. if is_nan x then Fin 0 else x) xs"
  define avg where "avg = float_div (pairwise_sum vs) (if n \<le> 1 then NaN else Fin (real n))"
  define sqr where "sqr = map (\<lambda>x. if is_nan x then Fin 0
                          else float_mul (float_sub avg x) (float_sub avg x)) xs"
  have std: "series_std xs
      = float_sqrt (float_div (pairwise_sum sqr) (if n \<le> 1 then NaN else Fin (real n - 1)))"
    by (simp only: series_std_def Let_def n_def vs_def avg_def sqr_def)
  show ?thesis
  proof (cases "n \<le> 1")
    case True
    then show ?thesis by (simp add: std float_div_NaN)
  next
    case False
    obtain z where z: "z \<in> set xs" "z = PInf \<or> z = NInf" using assms by auto
    then have zv: "z \<in># mset vs" by (auto simp: vs_def is_nan_def)
    have t: "tree_sum (mset vs) (pairwise_sum vs)" by (rule tree_sum_pairwise_sum)
    have "float_sub avg z = NaN"
    proof (cases "z = PInf")
      case True
      with zv have "pairwise_sum vs = PInf \<or> pairwise_sum vs = NaN"
        using tree_sum_PInf [OF t] by simp
      then have "avg = PInf \<or> avg = NaN" using False by (auto simp: avg_def)
      with True show ?thesis by auto
    next
      case notP: False
      with z have N: "z = NInf" by simp
      with zv have "pairwise_sum vs = NInf \<or> pairwise_sum vs = NaN"
        using tree_sum_NInf [OF t] by simp
      then have "avg = NInf \<or> avg = NaN" using False by (auto simp: avg_def)
      with N show ?thesis by auto
    qed
    then have "float_mul (float_sub avg z) (float_sub avg z) = NaN" by simp
    moreover have "\<not> is_nan z" using z(2) by (auto simp: is_nan_def)
    ultimately have "NaN \<in> set sqr" using z(1) unfolding sqr_def by force
    then have "pairwise_sum sqr = NaN" by (rule pairwise_sum_NaN)
    then show ?thesis by (simp add: std)
  qed
qed

lemma stability_index_zero_planned:
  assumes "r \<in> set data" and "planned_duration r = 0" and "actual_duration r \<noteq> 0"
  shows "stability_index (calculate_takt_adherence data) = NaN"
proof -
  let ?ratios = "map (\<lambda>r. float_div (Fin (actual_duration r)) (Fin (planned_duration r))) data"
  from assms(2,3) have "float_div (Fin (actual_duration r)) (Fin (planned_duration r)) = PInf
      \<or> float_div (Fin (actual_duration r)) (Fin (planned_duration r)) = NInf"
    by auto
  with assms(1) have "PInf \<in> set ?ratios \<or> NInf \<in> set ?ratios"
    by (metis (mono_tags, lifting) image_eqI set_map)
  then have "series_std ?ratios = NaN" by (rule series_std_inf)
  moreover from assms(1) have "data \<noteq> []" by auto
  ultimately show ?thesis by (simp add: calculate_takt_adherence_def Let_def)
qed

text \<open>
  C9 fails on the code: \<^verbatim>\<open>_calculate_takt_adherence\<close> has no case for
  \<^verbatim>\<open>planned_duration == 0\<close>. For the two records (planned 0, actual 5) and (planned 10,
  actual 10) the ratios are infinity and 1, and the stability index is NaN.
\<close>

theorem takt_adherence_zero_planned:
  "calculate_takt_adherence [example_row 0 5 5 0, example_row 10 10 0 1]
     = \<lparr>average_adherence = Fin 50, stability_index = NaN\<rparr>"
  by (simp add: calculate_takt_adherence_def example_row_def bool_series_mean_def
      series_std_def is_nan_def pairwise_sum_short round64_whole round64_values Let_def)

section \<open>Variance trend\<close>

lemma float_lt_NaN: "float_lt x NaN = False"
  by (cases x) simp_all

lemma rolling_mean_length: "length (rolling_mean w xs) = length xs"
  by (simp add: rolling_mean_def)

lemma rolling_mean_first:
  assumes "xs \<noteq> []" and "1 < w"
  shows "rolling_mean w xs ! 0 = NaN"
  using assms by (simp add: rolling_mean_def nth_map_upt)

text \<open>From the fifth position on, an entry is the mean of the five variances ending there.\<close>

lemma rolling_mean_nth:
  assumes "i < length xs" and "w \<le> i + 1"
  shows "rolling_mean w xs ! i = Fin (sum_list (take w (drop (i + 1 - w) xs)) / real w)"
  using assms by (simp add: rolling_mean_def nth_map_upt)

text \<open>
  The first entry of the moving average is NaN, every comparison with it is false, and
  the trend of a non-empty input is never \<^verbatim>\<open>Improving\<close>.
\<close>

lemma iloc_last:
  assumes "xs \<noteq> []"
  shows "iloc xs (- 1) = Inr (xs ! (length xs - 1))"
proof -
  from assms have "1 \<le> int (length xs)" by (cases xs) simp_all
  moreover have "nat (int (length xs) + - 1) = length xs - 1" by simp
  ultimately show ?thesis by (simp add: iloc_def)
qed

lemma iloc_first:
  assumes "xs \<noteq> []"
  shows "iloc xs 0 = Inr (xs ! 0)"
  using assms by (simp add: iloc_def)

lemma trend_never_improving:
  assumes "data \<noteq> []"
  shows "analyze_variance_trends data =
           Inr \<lparr>trend = ''Degrading'', pattern = Some (rolling_mean 5 (map variance data))\<rparr>"
proof -
  let ?vs = "rolling_mean 5 (map variance data)"
  have "length ?vs = length data" by (simp add: rolling_mean_length)
  with assms have ne: "?vs \<noteq> []" by auto
  have f: "?vs ! 0 = NaN" using assms by (simp add: rolling_mean_first)
  show ?thesis using assms
    by (simp add: analyze_variance_trends_def Let_def iloc_last [OF ne] iloc_first [OF ne] f
        float_lt_NaN)
qed

text \<open>
  C3 fails on the code. Ten records with the variances 10, 10, 10, 10, 10, 0, 0, 0, 0, 0
  have the moving averages 10, 8, 6, 4, 2, 0 from the fifth record on: the last moving
  average is below the first. The code compares the last entry with the entry at
  position 0, which is NaN, and reports \<^verbatim>\<open>Degrading\<close>.
\<close>

theorem variance_trend_never_improving_example:
  "analyze_variance_trends (variance_rows [10, 10, 10, 10, 10, 0, 0, 0, 0, 0]) =
     Inr \<lparr>trend = ''Degrading'',
          pattern = Some [NaN, NaN, NaN, NaN, Fin 10, Fin 8, Fin 6, Fin 4, Fin 2, Fin 0]\<rparr>"
proof -
  have "rolling_mean 5 [10, 10, 10, 10, 10, 0, 0, 0, 0, 0]
          = [NaN, NaN, NaN, NaN, Fin 10, Fin 8, Fin 6, Fin 4, Fin 2, Fin 0]"
    by (simp add: rolling_mean_def upt_rec)
  moreover have "map variance (variance_rows [10, 10, 10, 10, 10, 0, 0, 0, 0, 0])
                   = [10, 10, 10, 10, 10, 0, 0, 0, 0, 0]"
    by (simp add: variance_rows_def example_row_def)
  moreover have "variance_rows [10, 10, 10, 10, 10, 0, 0, 0, 0, 0] \<noteq> []"
    by (simp add: variance_rows_def)
  ultimately show ?thesis
    using trend_never_improving [of "variance_rows [10, 10, 10, 10, 10, 0, 0, 0, 0, 0]"] by simp
qed

section \<open>Running the agents\<close>

text \<open>
  Sequencing: a computation that returns hands its value and its store to the next one;
  one that raises ends the whole sequence.
\<close>

lemma bind_return [simp]: "bind_py (return_py v) f = f v"
  by (rule ext) (simp add: bind_py_def return_py_def)

lemma bind_raise [simp]: "bind_py (raise_py e) f = raise_py e"
  by (rule ext) (simp add: bind_py_def raise_py_def)

lemma bind_Inl: "m h = Inl e \<Longrightarrow> bind_py m f h = Inl e"
  by (simp add: bind_py_def)

lemma bind_Inr: "m h = Inr (v, h') \<Longrightarrow> bind_py m f h = f v h'"
  by (simp add: bind_py_def)

lemma bind_InrI: "m h = Inr (v, h') \<Longrightarrow> f v h' = r \<Longrightarrow> bind_py m f h = r"
  by (simp add: bind_py_def)

subsection \<open>\<^verbatim>\<open>analyze\<close> raises\<close>

text \<open>
  The first reasoning step of every class calls a method that is defined nowhere, after
  the base analysis was built (and, in \<^verbatim>\<open>RiskController\<close>, after the risk categories
  were). The list of steps is never completed, and \<^verbatim>\<open>analyze\<close> raises.
\<close>

lemma eval_items_raises:
  "eval_items ((k, undefined_method self m) # rest) h = Inl (AttributeError (class_name (cls self)) m)"
  by (simp add: undefined_method_def raise_py_def)

lemma reasoning_step_raises:
  "reasoning_step s ((k, undefined_method self m) # rest) h
     = Inl (AttributeError (class_name (cls self)) m)"
  by (simp add: reasoning_step_def dict_literal_def bind_py_def undefined_method_def raise_py_def)

lemma chain_of_thought_returns:
  "chain_of_thought self context h =
     Inr (PRef (length h + 4),
          h @ [ListObj [], ListObj [], ListObj [], DictObj [],
               DictObj [(''agent_name'', PStr (name self)),
                        (''expertise'', PStr (expertise self)),
                        (''context'', context),
                        (''reasoning_steps'', PRef (length h)),
                        (''conclusions'', PRef (length h + 1)),
                        (''recommendations'', PRef (length h + 2)),
                        (''validation'', PRef (length h + 3)),
                        (''cross_validation_needed'', PBool True)]])"
  by (simp add: chain_of_thought_def dict_literal_def list_literal_def new_object_def
      bind_py_def return_py_def)

lemma analyze_body_raises:
  assumes "\<And>h'. step h' = Inl e"
  shows "analyze_body self context (step # steps) h = Inl e"
proof -
  have "list_literal (step # steps) h' = Inl e" for h'
    by (simp add: list_literal_def bind_Inl assms)
  then show ?thesis
    by (simp add: analyze_body_def bind_Inr [OF chain_of_thought_returns] bind_Inl)
qed

lemma categorize: "\<exists>v h'. RiskController_categorize_risks self context h = Inr (v, h')"
  by (simp add: RiskController_categorize_risks_def risk_category_def dict_literal_def list_literal_def new_object_def
      bind_py_def return_py_def pass_method_def)

lemma risk_step:
  "RiskController_identify_project_risks self context h
     = Inl (AttributeError (class_name (cls self)) ''_identify_risk_factors'')"
proof -
  obtain v h' where c: "RiskController_categorize_risks self context h = Inr (v, h')"
    using categorize by blast
  show ?thesis
    by (simp add: RiskController_identify_project_risks_def reasoning_step_def dict_literal_def
        bind_py_def c undefined_method_def raise_py_def)
qed

lemma analyze_raises:
  "analyze self context h =
     Inl (AttributeError (class_name (cls self)) (first_undefined_method (cls self)))"
proof (cases "cls self")
  case StrategyArchitect
  then show ?thesis
    by (simp add: analyze_def StrategyArchitect_analyze_def first_undefined_method_def
        analyze_body_raises [OF reasoning_step_raises] StrategyArchitect_define_objectives_def)
next
  case WorkflowSpecialist
  then show ?thesis
    by (simp add: analyze_def WorkflowSpecialist_analyze_def first_undefined_method_def
        analyze_body_raises [OF reasoning_step_raises] WorkflowSpecialist_identify_bottlenecks_def)
next
  case SchedulingEngineer
  then show ?thesis
    by (simp add: analyze_def SchedulingEngineer_analyze_def first_undefined_method_def
        analyze_body_raises [OF reasoning_step_raises] SchedulingEngineer_analyze_project_complexity_def)
next
  case DataAnalyst
  then show ?thesis
    by (simp add: analyze_def DataAnalyst_analyze_def first_undefined_method_def
        analyze_body_raises [OF reasoning_step_raises] DataAnalyst_collect_historical_data_def)
next
  case RiskController
  then show ?thesis
    by (simp add: analyze_def RiskController_analyze_def first_undefined_method_def
        analyze_body_raises [OF risk_step])
next
  case ImplementationSpecialist
  then show ?thesis
    by (simp add: analyze_def ImplementationSpecialist_analyze_def first_undefined_method_def
        analyze_body_raises [OF reasoning_step_raises] ImplementationSpecialist_assess_organizational_readiness_def)
qed

lemma strategy_architect_raises:
  "analyze strategy_architect context h = Inl (AttributeError ''StrategyArchitect'' ''_extract_business_goals'')"
  using analyze_raises [of strategy_architect _ h]
  by (simp add: strategy_architect_def TaktAgent_init_def first_undefined_method_def)

subsection \<open>\<^verbatim>\<open>validate\<close> returns \<^verbatim>\<open>False\<close>\<close>

text \<open>
  The three criteria of every class are methods whose body is \<^verbatim>\<open>pass\<close>: the list of
  criteria is three times \<^verbatim>\<open>None\<close>, and \<^verbatim>\<open>all\<close> of it is false. The call allocates
  that list and touches nothing else.
\<close>

lemma validate_body_None:
  "validate_body [pass_method a, pass_method b, pass_method c] h
     = Inr (False, h @ [ListObj [PNone, PNone, PNone]])"
  by (simp add: validate_body_def list_literal_def pass_method_def new_object_def bind_py_def
      return_py_def all_builtin_def heap_get_def)

lemma validate_returns_False:
  "validate agent analysis h = Inr (False, h @ [ListObj [PNone, PNone, PNone]])"
  by (cases "cls agent")
    (simp_all add: validate_def validate_body_None StrategyArchitect_validate_def
      WorkflowSpecialist_validate_def SchedulingEngineer_validate_def DataAnalyst_validate_def
      RiskController_validate_def ImplementationSpecialist_validate_def)

subsection \<open>What \<^verbatim>\<open>cross_validate\<close> leaves in the store\<close>

text \<open>
  The loop, started in a store that ends with the copy, the result list and the objects
  of earlier rounds: it appends the references to the new entries to the result list and
  the new objects to the store, and changes nothing else.
\<close>

lemma loop_closed:
  assumes "map_of items ''cross_validation_results'' = Some (PRef (Suc (length h0)))"
  shows "cross_validate_loop self others analysis (PRef (length h0))
           (h0 @ DictObj items # ListObj es # ext)
         = Inr ((), h0 @ DictObj items
                   # ListObj (es @ entry_refs (length h0 + 2 + length ext) (peers_of self others))
                   # ext @ loop_objects (peers_of self others))"
proof (induction others arbitrary: es ext)
  case Nil
  show ?case by (simp add: peers_of_def return_py_def)
next
  case (Cons p ps)
  show ?case
  proof (cases "name p = name self")
    case True
    then show ?thesis using Cons.IH [of es ext] by (simp add: peers_of_def)
  next
    case False
    let ?H = "h0 @ DictObj items # ListObj es # ext"
    let ?L3 = "ListObj [PNone, PNone, PNone]"
    let ?H1 = "h0 @ DictObj items # ListObj es # ext @ [?L3]"
    let ?H2 = "h0 @ DictObj items # ListObj es # ext @ [?L3, entry_of p]"
    let ?a = "length h0 + 2 + length ext + 1"
    have v: "validate p analysis ?H = Inr (False, ?H1)"
      by (simp add: validate_returns_False)
    have g: "getitem (PRef (length h0)) ''cross_validation_results'' ?H1
               = Inr (PRef (Suc (length h0)), ?H1)"
      using assms by (simp add: getitem_def heap_get_def nth_append)
    have d: "dict_literal [(''validator'', return_py (PStr (name p))),
                           (''validated'', return_py (PBool False))] ?H1
               = Inr (PRef ?a, ?H2)"
      by (simp add: dict_literal_def new_object_def return_py_def bind_py_def entry_of_def)
    have ap: "append_method (PRef (Suc (length h0))) (PRef ?a) ?H2
               = Inr ((), h0 @ DictObj items # ListObj (es @ [PRef ?a]) # (ext @ [?L3, entry_of p]))"
      by (simp add: append_method_def heap_get_def nth_append list_update_append)
    have IH: "cross_validate_loop self ps analysis (PRef (length h0))
                (h0 @ DictObj items # ListObj (es @ [PRef ?a]) # (ext @ [?L3, entry_of p]))
              = Inr ((), h0 @ DictObj items
                   # ListObj (es @ entry_refs (length h0 + 2 + length ext) (peers_of self (p # ps)))
                   # ext @ loop_objects (peers_of self (p # ps)))"
      using False Cons.IH [of "es @ [PRef ?a]" "ext @ [?L3, entry_of p]"]
      by (simp add: peers_of_def)
    have "bind_py
            (bind_py (validate p analysis) (\<lambda>validation.
             bind_py (getitem (PRef (length h0)) ''cross_validation_results'') (\<lambda>results.
             bind_py (dict_literal
                        [(''validator'', return_py (PStr (name p))),
                         (''validated'', return_py (PBool validation))]) (\<lambda>entry.
             append_method results entry))))
            (\<lambda>_. cross_validate_loop self ps analysis (PRef (length h0))) ?H
          = Inr ((), h0 @ DictObj items
                   # ListObj (es @ entry_refs (length h0 + 2 + length ext) (peers_of self (p # ps)))
                   # ext @ loop_objects (peers_of self (p # ps)))"
      by (rule bind_InrI, rule bind_InrI, rule v, rule bind_InrI, rule g, rule bind_InrI,
          rule d, rule ap, rule IH)
    then show ?thesis using False by simp
  qed
qed

lemma cross_validate_closed:
  assumes "heap_get h analysis = Some (DictObj items)"
  shows "cross_validate self others analysis h
         = Inr (PRef (length h),
                h @ DictObj (AList.update ''cross_validation_results'' (PRef (Suc (length h))) items)
                  # ListObj (entry_refs (length h + 2) (peers_of self others))
                  # loop_objects (peers_of self others))"
proof -
  let ?items = "AList.update ''cross_validation_results'' (PRef (Suc (length h))) items"
  have c: "copy_method analysis h = Inr (PRef (length h), h @ [DictObj items])"
    using assms by (simp add: copy_method_def new_object_def)
  have l: "list_literal [] (h @ [DictObj items])
             = Inr (PRef (Suc (length h)), h @ [DictObj items, ListObj []])"
    by (simp add: list_literal_def new_object_def)
  have s: "setitem (PRef (length h)) ''cross_validation_results'' (PRef (Suc (length h)))
             (h @ [DictObj items, ListObj []])
           = Inr ((), h @ DictObj ?items # ListObj [] # [])"
    by (simp add: setitem_def heap_get_def nth_append)
  have m: "map_of ?items ''cross_validation_results'' = Some (PRef (Suc (length h)))"
    by (simp add: update_conv')
  have lp: "cross_validate_loop self others analysis (PRef (length h))
              (h @ DictObj ?items # ListObj [] # [])
            = Inr ((), h @ DictObj ?items
                      # ListObj ([] @ entry_refs (length h + 2 + length ([]::pyobj list)) (peers_of self others))
                      # [] @ loop_objects (peers_of self others))"
    by (rule loop_closed [OF m])
  show ?thesis
    unfolding cross_validate_def
    by (rule bind_InrI, rule c, rule bind_InrI, rule l, rule bind_InrI, rule s,
        rule bind_InrI, rule lp) (simp add: return_py_def)
qed

lemma entries_read:
  "length pre = b \<Longrightarrow>
   those (map (read_entry (pre @ loop_objects ps)) (entry_refs b ps)) = Some (results_of ps)"
proof (induction ps arbitrary: pre b)
  case Nil
  show ?case by (simp add: results_of_def)
next
  case (Cons p ps)
  have hd: "read_entry (pre @ loop_objects (p # ps)) (PRef (b + 1)) = Some (PStr (name p), PBool False)"
    using Cons.prems
    by (simp add: read_entry_def read_dict_def heap_get_def nth_append entry_of_def)
  have "length (pre @ [ListObj [PNone, PNone, PNone], entry_of p]) = b + 2"
    using Cons.prems by simp
  from Cons.IH [OF this]
  have tl: "those (map (read_entry (pre @ loop_objects (p # ps))) (entry_refs (b + 2) ps))
              = Some (results_of ps)"
    by simp
  show ?case
    using hd tl by (simp add: results_of_def)
qed

lemma cross_validation_results_closed:
  assumes "heap_get h analysis = Some (DictObj items)"
  shows "cross_validation_results
           (h @ DictObj (AList.update ''cross_validation_results'' (PRef (Suc (length h))) items)
              # ListObj (entry_refs (length h + 2) ps)
              # loop_objects ps)
           (PRef (length h))
         = Some (results_of ps)"
proof -
  let ?D = "DictObj (AList.update ''cross_validation_results'' (PRef (Suc (length h))) items)"
  let ?L = "ListObj (entry_refs (length h + 2) ps)"
  let ?h' = "h @ ?D # ?L # loop_objects ps"
  have d: "read_dict ?h' (PRef (length h))
             = Some (AList.update ''cross_validation_results'' (PRef (Suc (length h))) items)"
    by (simp add: read_dict_def heap_get_def)
  have l: "read_list ?h' (PRef (Suc (length h))) = Some (entry_refs (length h + 2) ps)"
    by (simp add: read_list_def heap_get_def nth_append)
  have "length (h @ [?D, ?L]) = length h + 2" by simp
  from entries_read [OF this, of ps]
  have e: "those (map (read_entry ?h') (entry_refs (length h + 2) ps)) = Some (results_of ps)"
    by simp
  have m: "map_of (AList.update ''cross_validation_results'' (PRef (Suc (length h))) items)
             ''cross_validation_results'' = Some (PRef (Suc (length h)))"
    by (simp add: update_conv')
  show ?thesis
    by (simp only: cross_validation_results_def d m l e option.case)
qed

text \<open>
  What can be read from a store can be read from every extension of it.
\<close>

lemma heap_get_append: "heap_get h v = Some obj \<Longrightarrow> heap_get (h @ ext) v = Some obj"
  by (cases v) (auto simp: heap_get_def nth_append split: if_splits)

lemma read_dict_append: "read_dict h v = Some items \<Longrightarrow> read_dict (h @ ext) v = Some items"
  by (auto simp: read_dict_def heap_get_append split: option.splits pyobj.splits)

lemma read_list_append: "read_list h v = Some xs \<Longrightarrow> read_list (h @ ext) v = Some xs"
  by (auto simp: read_list_def heap_get_append split: option.splits pyobj.splits)

lemma read_entry_append: "read_entry h v = Some e \<Longrightarrow> read_entry (h @ ext) v = Some e"
  by (auto simp: read_entry_def read_dict_append split: option.splits)

lemma those_map_append:
  "those (map (read_entry h) refs) = Some es \<Longrightarrow> those (map (read_entry (h @ ext)) refs) = Some es"
proof (induction refs arbitrary: es)
  case Nil
  then show ?case by simp
next
  case (Cons r refs)
  then show ?case
    by (auto simp: read_entry_append split: option.splits)
qed

lemma cross_validation_results_append:
  "cross_validation_results h v = Some rs \<Longrightarrow> cross_validation_results (h @ ext) v = Some rs"
  by (auto simp: cross_validation_results_def read_dict_append read_list_append those_map_append
      split: option.splits)

section \<open>Peers of a roster\<close>

text \<open>
  The keys and the names of the six-agent roster. Where the names of a roster are pairwise
  distinct, the agents under the other keys are exactly the peers \<^verbatim>\<open>cross_validate\<close>
  asks, one fewer than the roster has agents.
\<close>

lemma six_agent_roster_keys:
  "map fst (six_agent_roster getenv) =
     [''strategy_architect'', ''workflow_specialist'', ''scheduling_engineer'', ''data_analyst'',
      ''risk_controller'', ''implementation_specialist'']"
  by (simp add: six_agent_roster_def AGENT_CONFIGS_def)

lemma six_agent_roster_names:
  "map (name \<circ> snd) (six_agent_roster getenv) =
     [''Dr. TAKT Strategy Architect'', ''Dr. Workflow Optimization Specialist'',
      ''Dr. TAKT Scheduling & Resource Engineer'', ''Dr. AI-Driven TAKT Data Analyst'',
      ''Dr. Risk & Variability Controller'', ''Dr. Implementation & Training Specialist'']"
  by (simp add: six_agent_roster_def AGENT_CONFIGS_def TaktAgent_init_def)

lemma six_agent_roster_head:
  "six_agent_roster no_keys = (''strategy_architect'', strategy_architect) # tl (six_agent_roster no_keys)"
  by (simp add: six_agent_roster_def AGENT_CONFIGS_def strategy_architect_def no_keys_def)

lemma update_new_key:
  "k \<notin> fst ` set al \<Longrightarrow> AList.update k v al = al @ [(k, v)]"
  by (induction al) auto

lemma peers_of_peers:
  assumes names: "distinct (map (name \<circ> snd) agents)"
    and self: "map_of agents k = Some self"
  shows "peers_of self (peers agents k) = peers agents k"
proof -
  have "name p \<noteq> name self" if "p \<in> set (peers agents k)" for p
  proof
    assume eq: "name p = name self"
    from that obtain n where n: "(n, p) \<in> set agents" "n \<noteq> k"
      by (auto simp: peers_def)
    from self have s: "(k, self) \<in> set agents" by (rule map_of_SomeD)
    from names have "inj_on (name \<circ> snd) (set agents)" by (simp add: distinct_map)
    moreover have "(name \<circ> snd) (n, p) = (name \<circ> snd) (k, self)" using eq by simp
    ultimately have "(n, p) = (k, self)" using n(1) s by (rule inj_onD)
    with n(2) show False by simp
  qed
  then show ?thesis by (simp add: peers_of_def)
qed

lemma length_peers:
  assumes "distinct (map fst agents)" and "k \<in> fst ` set agents"
  shows "length (peers agents k) = length agents - 1"
  using assms
proof (induction agents)
  case Nil
  then show ?case by simp
next
  case (Cons a agents)
  show ?case
  proof (cases "fst a = k")
    case True
    with Cons.prems have "k \<notin> set (map fst agents)" by auto
    then have "filter (\<lambda>(n, a). n \<noteq> k) agents = agents"
      by (force simp: filter_id_conv)
    with True show ?thesis by (simp add: peers_def case_prod_beta)
  next
    case False
    with Cons.prems have "k \<in> fst ` set agents" and "distinct (map fst agents)" by auto
    with Cons.IH have "length (peers agents k) = length agents - 1" by simp
    moreover from \<open>k \<in> fst ` set agents\<close> have "agents \<noteq> []" by auto
    ultimately show ?thesis using False by (cases agents) (simp_all add: peers_def case_prod_beta)
  qed
qed

section \<open>Cross-validation never changes its input\<close>

text \<open>
  C6. For every analysis that is a dictionary of the store and every list of peers,
  \<^verbatim>\<open>cross_validate\<close> returns. Every object of the store before the call is unchanged
  after it, the analysis among them. The result is a new dictionary: the items of the
  analysis with \<^verbatim>\<open>cross_validation_results\<close> set to a new list, which holds one entry
  per peer named differently from the validating agent.
\<close>

theorem cross_validate_copy_on_append:
  assumes "read_dict h analysis = Some items"
  shows "\<exists>validated results refs h'.
           cross_validate self other_agents analysis h = Inr (validated, h') \<and>
           take (length h) h' = h \<and>
           read_dict h' analysis = Some items \<and>
           heap_get h validated = None \<and>
           heap_get h results = None \<and>
           read_dict h' validated = Some (AList.update ''cross_validation_results'' results items) \<and>
           read_list h' results = Some refs \<and>
           length refs = length (peers_of self other_agents)"
proof -
  from assms have g: "heap_get h analysis = Some (DictObj items)"
    by (auto simp: read_dict_def split: option.splits pyobj.splits)
  let ?res = "PRef (Suc (length h))"
  let ?refs = "entry_refs (length h + 2) (peers_of self other_agents)"
  let ?h' = "h @ DictObj (AList.update ''cross_validation_results'' ?res items)
               # ListObj ?refs # loop_objects (peers_of self other_agents)"
  have len: "length (entry_refs b ps) = length ps" for b ps
    by (induction ps arbitrary: b) simp_all
  have "cross_validate self other_agents analysis h = Inr (PRef (length h), ?h')"
    by (rule cross_validate_closed [OF g])
  moreover have "take (length h) ?h' = h" by simp
  moreover have "read_dict ?h' analysis = Some items"
    by (rule read_dict_append [OF assms])
  moreover have "heap_get h (PRef (length h)) = None" by (simp add: heap_get_def)
  moreover have "heap_get h ?res = None" by (simp add: heap_get_def)
  moreover have "read_dict ?h' (PRef (length h))
                   = Some (AList.update ''cross_validation_results'' ?res items)"
    by (simp add: read_dict_def heap_get_def)
  moreover have "read_list ?h' ?res = Some ?refs"
    by (simp add: read_list_def heap_get_def nth_append)
  moreover have "length ?refs = length (peers_of self other_agents)" by (rule len)
  ultimately show ?thesis by blast
qed

text \<open>
  The strategy architect cross-validates a one-item analysis against the five other
  agents of the six-agent roster.
\<close>

theorem cross_validate_copy_on_append_witness:
  "\<exists>validated results refs h'.
     cross_validate strategy_architect (peers (six_agent_roster no_keys) ''strategy_architect'')
       (PRef 0) [DictObj [(''agent_name'', PStr ''Dr. TAKT Strategy Architect'')]] = Inr (validated, h') \<and>
     take 1 h' = [DictObj [(''agent_name'', PStr ''Dr. TAKT Strategy Architect'')]] \<and>
     read_dict h' (PRef 0) = Some [(''agent_name'', PStr ''Dr. TAKT Strategy Architect'')] \<and>
     heap_get [DictObj [(''agent_name'', PStr ''Dr. TAKT Strategy Architect'')]] validated = None \<and>
     read_dict h' validated
       = Some [(''agent_name'', PStr ''Dr. TAKT Strategy Architect''),
               (''cross_validation_results'', results)] \<and>
     read_list h' results = Some refs \<and>
     length refs = 5"
proof -
  let ?h = "[DictObj [(''agent_name'', PStr ''Dr. TAKT Strategy Architect'')]]"
  let ?others = "peers (six_agent_roster no_keys) ''strategy_architect''"
  have rd: "read_dict ?h (PRef 0) = Some [(''agent_name'', PStr ''Dr. TAKT Strategy Architect'')]"
    by (simp add: read_dict_def heap_get_def)
  have "map_of (six_agent_roster no_keys) ''strategy_architect'' = Some strategy_architect"
    by (subst six_agent_roster_head) simp
  moreover have "distinct (map (name \<circ> snd) (six_agent_roster no_keys))"
    by (simp only: six_agent_roster_names) simp
  ultimately have "peers_of strategy_architect ?others = ?others"
    by (rule peers_of_peers [rotated])
  moreover have "length ?others = 5"
    by (simp add: peers_def six_agent_roster_def AGENT_CONFIGS_def)
  ultimately have five: "length (peers_of strategy_architect ?others) = 5" by simp
  from cross_validate_copy_on_append [OF rd, of strategy_architect ?others]
  obtain validated results refs h' where
    r: "cross_validate strategy_architect ?others (PRef 0) ?h = Inr (validated, h')"
       "take (length ?h) h' = ?h"
       "read_dict h' (PRef 0) = Some [(''agent_name'', PStr ''Dr. TAKT Strategy Architect'')]"
       "heap_get ?h validated = None"
       "read_dict h' validated = Some (AList.update ''cross_validation_results'' results
           [(''agent_name'', PStr ''Dr. TAKT Strategy Architect'')])"
       "read_list h' results = Some refs"
       "length refs = length (peers_of strategy_architect ?others)"
    by blast
  show ?thesis
    using r five by (intro exI [of _ validated] exI [of _ results] exI [of _ refs] exI [of _ h']) simp
qed

section \<open>No analysis is ever validated\<close>

text \<open>
  C10. For every agent of the six classes and every analysis, \<^verbatim>\<open>validate\<close> returns
  \<^verbatim>\<open>False\<close>. Every entry \<^verbatim>\<open>cross_validate\<close> appends for a dictionary analysis
  therefore carries \<^verbatim>\<open>validated = False\<close>: the results are the names of the peers, in
  the order of the list, each with \<^verbatim>\<open>False\<close>.
\<close>

theorem validate_always_False:
  "(\<exists>h'. validate agent analysis h = Inr (False, h')) \<and>
   (read_dict h analysis = Some items \<longrightarrow>
      (\<exists>validated h'. cross_validate self other_agents analysis h = Inr (validated, h') \<and>
         cross_validation_results h' validated
           = Some (map (\<lambda>p. (PStr (name p), PBool False)) (peers_of self other_agents))))"
proof (intro conjI impI)
  show "\<exists>h'. validate agent analysis h = Inr (False, h')"
    by (simp add: validate_returns_False)
next
  assume "read_dict h analysis = Some items"
  then have g: "heap_get h analysis = Some (DictObj items)"
    by (auto simp: read_dict_def split: option.splits pyobj.splits)
  show "\<exists>validated h'. cross_validate self other_agents analysis h = Inr (validated, h') \<and>
         cross_validation_results h' validated
           = Some (map (\<lambda>p. (PStr (name p), PBool False)) (peers_of self other_agents))"
    using cross_validate_closed [OF g, of self other_agents]
      cross_validation_results_closed [OF g, of "peers_of self other_agents"]
    by (simp add: results_of_def)
qed

text \<open>
  An analysis with a conclusion, validated by the five peers of the strategy architect.
\<close>

theorem validate_always_False_witness:
  "(\<exists>h'. validate strategy_architect (PRef 0) [DictObj [(''conclusions'', PStr ''sound'')]] = Inr (False, h')) \<and>
   (\<exists>validated h'.
      cross_validate strategy_architect (peers (six_agent_roster no_keys) ''strategy_architect'')
        (PRef 0) [DictObj [(''conclusions'', PStr ''sound'')]] = Inr (validated, h') \<and>
      cross_validation_results h' validated
        = Some [(PStr ''Dr. Workflow Optimization Specialist'', PBool False),
                (PStr ''Dr. TAKT Scheduling & Resource Engineer'', PBool False),
                (PStr ''Dr. AI-Driven TAKT Data Analyst'', PBool False),
                (PStr ''Dr. Risk & Variability Controller'', PBool False),
                (PStr ''Dr. Implementation & Training Specialist'', PBool False)])"
proof -
  let ?h = "[DictObj [(''conclusions'', PStr ''sound'')]]"
  have rd: "read_dict ?h (PRef 0) = Some [(''conclusions'', PStr ''sound'')]"
    by (simp add: read_dict_def heap_get_def)
  have p: "map (\<lambda>p. (PStr (name p), PBool False))
             (peers_of strategy_architect (peers (six_agent_roster no_keys) ''strategy_architect''))
        = [(PStr ''Dr. Workflow Optimization Specialist'', PBool False),
                (PStr ''Dr. TAKT Scheduling & Resource Engineer'', PBool False),
                (PStr ''Dr. AI-Driven TAKT Data Analyst'', PBool False),
                (PStr ''Dr. Risk & Variability Controller'', PBool False),
                (PStr ''Dr. Implementation & Training Specialist'', PBool False)]"
    by (simp add: peers_of_def peers_def six_agent_roster_def AGENT_CONFIGS_def TaktAgent_init_def
        strategy_architect_def)
  show ?thesis
    using validate_always_False [of strategy_architect "PRef 0" ?h "[(''conclusions'', PStr ''sound'')]"
        strategy_architect "peers (six_agent_roster no_keys) ''strategy_architect''"] rd
    by (simp only: p)
qed

section \<open>Cross-validation over a roster\<close>

lemma initialize_agents_roster:
  "initialize_agents getenv =
     Inr [(''strategy_architect'',
           TaktAgent_init StrategyArchitect
             \<lparr>name = ''Dr. TAKT Strategy Architect'',
              expertise = ''Portfolio & Enterprise-Level TAKT Implementation'',
              api_key = getenv ''OPENAI_API_KEY'', model = ''gpt-4-turbo''\<rparr>)]"
  by (simp add: initialize_agents_def AGENT_CONFIGS_def)

lemma cross_validate_analyses_loop_ok:
  assumes "distinct (map (name \<circ> snd) agents)"
    and "distinct (map fst analyses)"
    and "fst ` set analyses \<subseteq> fst ` set agents"
    and "list_all (\<lambda>(k, v). read_dict h v \<noteq> None) analyses"
    and "fst ` set acc \<inter> fst ` set analyses = {}"
    and "list_all (\<lambda>(k, v). cross_validation_results h v = Some (results_of (peers agents k))) acc"
  shows "\<exists>vs ext. cross_validate_analyses_loop agents analyses acc h = Inr (vs, h @ ext) \<and>
           map fst vs = map fst acc @ map fst analyses \<and>
           list_all (\<lambda>(k, v). cross_validation_results (h @ ext) v
                        = Some (results_of (peers agents k))) vs"
  using assms(2-)
proof (induction analyses arbitrary: acc h)
  case Nil
  have "cross_validate_analyses_loop agents [] acc h = Inr (acc, h @ [])"
    by (simp add: return_py_def)
  with Nil.prems show ?case by (metis append_Nil2 list.simps(8))
next
  case (Cons kv rest)
  obtain k v where kv: "kv = (k, v)" by (cases kv)
  from Cons.prems(2) kv obtain self where self: "map_of agents k = Some self"
    by (metis (no_types, lifting) domD dom_map_of_conv_image_fst image_eqI list.set_intros(1) prod.sel(1) subsetD)
  from Cons.prems(3) kv obtain items where "read_dict h v = Some items" by auto
  then have g: "heap_get h v = Some (DictObj items)"
    by (auto simp: read_dict_def split: option.splits pyobj.splits)
  let ?ps = "peers agents k"
  let ?e1 = "DictObj (AList.update ''cross_validation_results'' (PRef (Suc (length h))) items)
               # ListObj (entry_refs (length h + 2) ?ps) # loop_objects ?ps"
  let ?acc = "acc @ [(k, PRef (length h))]"
  have pp: "peers_of self ?ps = ?ps" by (rule peers_of_peers [OF assms(1) self])
  have cv: "cross_validate self ?ps v h = Inr (PRef (length h), h @ ?e1)"
    using cross_validate_closed [OF g, of self ?ps] by (simp only: pp)
  have new: "cross_validation_results (h @ ?e1) (PRef (length h)) = Some (results_of ?ps)"
    by (rule cross_validation_results_closed [OF g])
  from Cons.prems(4) kv have "k \<notin> fst ` set acc" by auto
  then have upd: "AList.update k (PRef (length h)) acc = ?acc" by (rule update_new_key)
  have step: "cross_validate_analyses_loop agents (kv # rest) acc h
                = cross_validate_analyses_loop agents rest ?acc (h @ ?e1)"
    by (simp add: kv self bind_py_def cv upd flip: peers_def)
  have 1: "distinct (map fst rest)" using Cons.prems(1) by simp
  have 2: "fst ` set rest \<subseteq> fst ` set agents" using Cons.prems(2) by auto
  have 3: "list_all (\<lambda>(k, v). read_dict (h @ ?e1) v \<noteq> None) rest"
    unfolding list_all_iff
  proof
    fix x assume x: "x \<in> set rest"
    obtain k' v' where x': "x = (k', v')" by (cases x)
    with x Cons.prems(3) obtain its where "read_dict h v' = Some its"
      by (auto simp: list_all_iff)
    then have "read_dict (h @ ?e1) v' = Some its" by (rule read_dict_append)
    with x' show "case x of (k, v) \<Rightarrow> read_dict (h @ ?e1) v \<noteq> None" by simp
  qed
  have 4: "fst ` set ?acc \<inter> fst ` set rest = {}"
    using Cons.prems(1,4) kv by auto
  have old: "list_all (\<lambda>(k, v). cross_validation_results (h @ ?e1) v
                        = Some (results_of (peers agents k))) acc"
    unfolding list_all_iff
  proof
    fix x assume x: "x \<in> set acc"
    obtain k' v' where x': "x = (k', v')" by (cases x)
    with x Cons.prems(5) have "cross_validation_results h v' = Some (results_of (peers agents k'))"
      by (auto simp: list_all_iff)
    then have "cross_validation_results (h @ ?e1) v' = Some (results_of (peers agents k'))"
      by (rule cross_validation_results_append)
    with x' show "case x of (k, v) \<Rightarrow> cross_validation_results (h @ ?e1) v
                        = Some (results_of (peers agents k))" by simp
  qed
  have 5: "list_all (\<lambda>(k, v). cross_validation_results (h @ ?e1) v
                        = Some (results_of (peers agents k))) ?acc"
    using old new by simp
  from Cons.IH [OF 1 2 3 4 5] obtain vs ext where
    r: "cross_validate_analyses_loop agents rest ?acc (h @ ?e1) = Inr (vs, (h @ ?e1) @ ext)"
       "map fst vs = map fst ?acc @ map fst rest"
       "list_all (\<lambda>(k, v). cross_validation_results ((h @ ?e1) @ ext) v
                        = Some (results_of (peers agents k))) vs"
    by blast
  show ?case
  proof (intro exI conjI)
    show "cross_validate_analyses_loop agents (kv # rest) acc h = Inr (vs, h @ (?e1 @ ext))"
      using step r(1) by simp
    show "map fst vs = map fst acc @ map fst (kv # rest)"
      using r(2) kv by simp
    show "list_all (\<lambda>(k, v). cross_validation_results (h @ (?e1 @ ext)) v
                        = Some (results_of (peers agents k))) vs"
      using r(3) by simp
  qed
qed

text \<open>
  C2, as amended. The roster \<^verbatim>\<open>_initialize_agents\<close> configures holds one agent, under
  the key \<^verbatim>\<open>strategy_architect\<close>. For every roster whose agents have pairwise distinct
  names, cross-validating one dictionary analysis per roster key returns one entry per
  agent, in roster order, and each entry's \<^verbatim>\<open>cross_validation_results\<close> has length
  \<^verbatim>\<open>len(agents) - 1\<close>: one result per other agent of the roster, in roster order.
\<close>

theorem cross_validation_counts:
  assumes keys: "distinct (map fst agents)"
    and names: "distinct (map (name \<circ> snd) agents)"
    and same: "map fst analyses = map fst agents"
    and dicts: "list_all (\<lambda>(k, v). read_dict h v \<noteq> None) analyses"
  shows "(\<exists>validated h'.
            cross_validate_analyses agents analyses h = Inr (validated, h') \<and>
            map fst validated = map fst agents \<and>
            list_all (\<lambda>(k, v). \<exists>rs. cross_validation_results h' v = Some rs \<and>
                         length rs = length agents - 1 \<and>
                         map fst rs = map (\<lambda>p. PStr (name p)) (peers agents k)) validated) \<and>
         (\<exists>agent. initialize_agents getenv = Inr [(''strategy_architect'', agent)])"
proof
  have d: "distinct (map fst analyses)" using keys same by simp
  have s: "fst ` set analyses \<subseteq> fst ` set agents"
    using same by (metis list.set_map order_refl)
  have e: "fst ` set [] \<inter> fst ` set analyses = {}" by simp
  have a: "list_all (\<lambda>(k, v). cross_validation_results h v = Some (results_of (peers agents k))) []"
    by simp
  from cross_validate_analyses_loop_ok [OF names d s dicts e a] obtain vs ext where
    r: "cross_validate_analyses_loop agents analyses [] h = Inr (vs, h @ ext)"
       "map fst vs = map fst [] @ map fst analyses"
       "list_all (\<lambda>(k, v). cross_validation_results (h @ ext) v
                        = Some (results_of (peers agents k))) vs"
    by auto
  have "list_all (\<lambda>(k, v). \<exists>rs. cross_validation_results (h @ ext) v = Some rs \<and>
                         length rs = length agents - 1 \<and>
                         map fst rs = map (\<lambda>p. PStr (name p)) (peers agents k)) vs"
    unfolding list_all_iff
  proof
    fix x assume x: "x \<in> set vs"
    obtain k v where x': "x = (k, v)" by (cases x)
    from x x' have "k \<in> set (map fst vs)" by force
    with r(2) same have "k \<in> fst ` set agents" by simp
    with keys have len: "length (peers agents k) = length agents - 1" by (rule length_peers)
    from r(3) x x' have "cross_validation_results (h @ ext) v = Some (results_of (peers agents k))"
      by (auto simp: list_all_iff)
    moreover have "length (results_of (peers agents k)) = length agents - 1"
      using len by (simp add: results_of_def)
    moreover have "map fst (results_of (peers agents k)) = map (\<lambda>p. PStr (name p)) (peers agents k)"
      by (simp add: results_of_def comp_def)
    ultimately show "case x of (k, v) \<Rightarrow> \<exists>rs. cross_validation_results (h @ ext) v = Some rs \<and>
                         length rs = length agents - 1 \<and>
                         map fst rs = map (\<lambda>p. PStr (name p)) (peers agents k)"
      using x' by simp
  qed
  with r(1,2) same
  show "\<exists>validated h'.
            cross_validate_analyses agents analyses h = Inr (validated, h') \<and>
            map fst validated = map fst agents \<and>
            list_all (\<lambda>(k, v). \<exists>rs. cross_validation_results h' v = Some rs \<and>
                         length rs = length agents - 1 \<and>
                         map fst rs = map (\<lambda>p. PStr (name p)) (peers agents k)) validated"
    by (auto simp: cross_validate_analyses_def)
next
  show "\<exists>agent. initialize_agents getenv = Inr [(''strategy_architect'', agent)]"
    by (simp add: initialize_agents_roster)
qed

text \<open>
  Six analyses under the six-agent roster: six entries, five results each.
\<close>

theorem cross_validation_counts_witness:
  "\<exists>validated h'.
     cross_validate_analyses (six_agent_roster no_keys) six_analyses six_dicts = Inr (validated, h') \<and>
     length validated = 6 \<and>
     list_all (\<lambda>(k, v). \<exists>rs. cross_validation_results h' v = Some rs \<and> length rs = 5) validated"
proof -
  have keys: "distinct (map fst (six_agent_roster no_keys))"
    by (simp add: six_agent_roster_keys)
  have names: "distinct (map (name \<circ> snd) (six_agent_roster no_keys))"
    by (simp only: six_agent_roster_names) simp
  have same: "map fst six_analyses = map fst (six_agent_roster no_keys)"
    by (simp add: six_agent_roster_keys six_analyses_def)
  have dicts: "list_all (\<lambda>(k, v). read_dict six_dicts v \<noteq> None) six_analyses"
    by (simp add: six_analyses_def six_dicts_def read_dict_def heap_get_def)
  have len: "length (six_agent_roster no_keys) = 6"
    using arg_cong [OF six_agent_roster_keys [of no_keys], of length] by simp
  from cross_validation_counts [OF keys names same dicts, of no_keys]
  obtain validated h' where
    r: "cross_validate_analyses (six_agent_roster no_keys) six_analyses six_dicts = Inr (validated, h')"
       "map fst validated = map fst (six_agent_roster no_keys)"
       "list_all (\<lambda>(k, v). \<exists>rs. cross_validation_results h' v = Some rs \<and>
                         length rs = length (six_agent_roster no_keys) - 1 \<and>
                         map fst rs = map (\<lambda>p. PStr (name p)) (peers (six_agent_roster no_keys) k)) validated"
    by blast
  have "length validated = 6"
    using r(2) len by (metis length_map)
  moreover from r(3) have "list_all (\<lambda>(k, v). \<exists>rs. cross_validation_results h' v = Some rs \<and> length rs = 5) validated"
    unfolding list_all_iff len by fastforce
  ultimately show ?thesis using r(1) by blast
qed

text \<open>
  C2 as stated fails: the configured roster holds one agent, not six, and on the
  six-agent roster \<^verbatim>\<open>analyze_project\<close> raises and returns no entries.
\<close>

lemma analyze_loop_raises:
  assumes "analyze agent context h = Inl e"
  shows "analyze_loop ((agent_name, agent) # rest) context analyses h = Inl e"
  using assms by (simp add: bind_py_def)

lemma analyze_project_first_raises:
  assumes "analyze agent context h = Inl e"
  shows "analyze_project ((agent_name, agent) # rest) context h = Inl e"
  unfolding analyze_project_def
  by (rule bind_Inl) (rule analyze_loop_raises [OF assms])

theorem roster_counterexample:
  "initialize_agents no_keys = Inr [(''strategy_architect'', strategy_architect)] \<and>
   length [(''strategy_architect'', strategy_architect)] = 1 \<and>
   length (six_agent_roster no_keys) = 6 \<and>
   analyze_project (six_agent_roster no_keys) (PRef 0) [DictObj []]
     = Inl (AttributeError ''StrategyArchitect'' ''_extract_business_goals'')"
proof -
  have "analyze_project (six_agent_roster no_keys) (PRef 0) [DictObj []]
     = Inl (AttributeError ''StrategyArchitect'' ''_extract_business_goals'')"
    by (subst six_agent_roster_head) (rule analyze_project_first_raises [OF strategy_architect_raises])
  moreover have "length (six_agent_roster no_keys) = 6"
    using arg_cong [OF six_agent_roster_keys [of no_keys], of length] by simp
  moreover have "initialize_agents no_keys = Inr [(''strategy_architect'', strategy_architect)]"
    by (simp add: initialize_agents_roster strategy_architect_def no_keys_def)
  ultimately show ?thesis by simp
qed

section \<open>An agent's analysis never returns\<close>

text \<open>
  The one written-out step that tags an error is \<^verbatim>\<open>DataAnalyst._train_predict_model\<close>:
  its training data is \<^verbatim>\<open>None\<close>, and it returns the dictionary of its first
  \<^verbatim>\<open>if\<close>. The step that calls it raises before its result is used (lemma
  \<open>analyze_raises\<close>).
\<close>

lemma train_predict_model_error_tagged:
  "DataAnalyst_train_predict_model self context h =
     Inr (PRef (length h), h @ [DictObj [(''error'', PStr ''Insufficient data for model training'')]])"
  by (simp add: DataAnalyst_train_predict_model_def pass_method_def dict_literal_def
      new_object_def bind_py_def return_py_def)

text \<open>
  C1 fails on the code. For every agent, every context and every store, \<^verbatim>\<open>analyze\<close>
  raises \<^verbatim>\<open>AttributeError\<close>: the first reasoning step calls a helper method that is
  defined nowhere. Nothing catches the error: \<^verbatim>\<open>analyze_project\<close> raises it as soon as
  the first agent of the roster is asked, and returns no result. On the roster the
  orchestrator configures and an empty context, the error names
  \<^verbatim>\<open>_extract_business_goals\<close>.
\<close>

theorem analyze_project_raises:
  "analyze agent context h
     = Inl (AttributeError (class_name (cls agent)) (first_undefined_method (cls agent))) \<and>
   analyze_project ((agent_name, agent) # rest) context h
     = Inl (AttributeError (class_name (cls agent)) (first_undefined_method (cls agent))) \<and>
   initialize_agents no_keys = Inr [(''strategy_architect'', strategy_architect)] \<and>
   analyze_project [(''strategy_architect'', strategy_architect)] (PRef 0) [DictObj []]
     = Inl (AttributeError ''StrategyArchitect'' ''_extract_business_goals'')"
proof (intro conjI)
  show "analyze agent context h
     = Inl (AttributeError (class_name (cls agent)) (first_undefined_method (cls agent)))"
    by (rule analyze_raises)
  show "analyze_project ((agent_name, agent) # rest) context h
     = Inl (AttributeError (class_name (cls agent)) (first_undefined_method (cls agent)))"
    by (rule analyze_project_first_raises) (rule analyze_raises)
  show "initialize_agents no_keys = Inr [(''strategy_architect'', strategy_architect)]"
    by (simp add: initialize_agents_roster strategy_architect_def no_keys_def)
  show "analyze_project [(''strategy_architect'', strategy_architect)] (PRef 0) [DictObj []]
     = Inl (AttributeError ''StrategyArchitect'' ''_extract_business_goals'')"
    by (rule analyze_project_first_raises) (rule strategy_architect_raises)
qed

section \<open>Synthesis\<close>

text \<open>
  C5 fails on the code: the four methods of the synthesis have the body \<^verbatim>\<open>pass\<close>.
  Whatever the validated analyses are, the bundle holds \<^verbatim>\<open>None\<close> under each of its
  four keys.
\<close>

theorem synthesis_returns_none:
  "synthesize_recommendations validated_analyses =
     \<lparr>strategic_recommendations = PNone, implementation_plan = PNone,
      risk_mitigation = PNone, success_metrics = PNone\<rparr>"
  by (simp add: synthesize_recommendations_def extract_strategic_recommendations_def
      create_implementation_plan_def compile_risk_mitigation_def define_success_metrics_def)

end
